theory Spec2Isabelle
  imports Complex_Main
begin

section \<open>Exceptions\<close>

text \<open>
  The Python exceptions that reach a caller in the code modelled here: \<open>KeyError\<close> from a
  dict subscript, \<open>TypeError\<close> from \<open>str.join\<close> on a non-string item or from hashing a list or
  dict, \<open>AttributeError\<close> from \<open>.lower()\<close> on a value that is not a string.
\<close>

datatype py_error = KeyError | TypeError | AttributeError

section \<open>Strings\<close>

text \<open>
  A Python \<open>str\<close> is modelled as a list of 8-bit characters. Case mapping and the character
  classes (\<open>str.lower\<close>, \<open>str.upper\<close>, whitespace for \<open>split\<close>/\<open>strip\<close>/\<open>\s\<close>, word characters
  for \<open>\w\<close>) are those of ASCII; characters outside ASCII are taken to be caseless and to
  be neither whitespace nor word characters.
\<close>

definition ascii_uppercase :: string where
  "ascii_uppercase = ''ABCDEFGHIJKLMNOPQRSTUVWXYZ''"

definition ascii_lowercase :: string where
  "ascii_lowercase = ''abcdefghijklmnopqrstuvwxyz''"

definition digits :: string where
  "digits = ''0123456789''"

definition whitespace :: string where
  "whitespace = [CHR 0x09, CHR 0x0A, CHR 0x0B, CHR 0x0C, CHR 0x0D,
                 CHR 0x1C, CHR 0x1D, CHR 0x1E, CHR 0x1F, CHR '' '']"

definition lower_char :: "char \<Rightarrow> char" where
  "lower_char c = (case map_of (zip ascii_uppercase ascii_lowercase) c of Some d \<Rightarrow> d | None \<Rightarrow> c)"

definition upper_char :: "char \<Rightarrow> char" where
  "upper_char c = (case map_of (zip ascii_lowercase ascii_uppercase) c of Some d \<Rightarrow> d | None \<Rightarrow> c)"

definition lower :: "string \<Rightarrow> string" where
  "lower s = map lower_char s"

definition upper :: "string \<Rightarrow> string" where
  "upper s = map upper_char s"

definition is_space :: "char \<Rightarrow> bool" where
  "is_space c = (c \<in> set whitespace)"

definition is_word_char :: "char \<Rightarrow> bool" where
  "is_word_char c = (c \<in> set (ascii_lowercase @ ascii_uppercase @ digits @ ''_''))"

text \<open>
  The maximal runs of characters satisfying \<open>P\<close>, from left to right: \<open>s.split()\<close> is the
  list of runs of non-whitespace characters and \<open>re.findall(r'\w+', s)\<close> the list of runs of
  word characters. \<open>cur\<close> is the run being read.
\<close>

fun runs_acc :: "(char \<Rightarrow> bool) \<Rightarrow> string \<Rightarrow> string \<Rightarrow> string list" where
  "runs_acc P cur [] = (if cur = [] then [] else [cur])"
| "runs_acc P cur (c # cs) =
     (if P c then runs_acc P (cur @ [c]) cs
      else if cur = [] then runs_acc P [] cs
      else cur # runs_acc P [] cs)"

definition str_split :: "string \<Rightarrow> string list" where
  "str_split s = runs_acc (\<lambda>c. \<not> is_space c) [] s"

definition findall_word :: "string \<Rightarrow> string list" where
  "findall_word s = runs_acc is_word_char [] s"

definition strip :: "string \<Rightarrow> string" where
  "strip s = rev (dropWhile is_space (rev (dropWhile is_space s)))"

text \<open>\<open>s.startswith(p)\<close> and the substring test \<open>sub in s\<close>.\<close>

definition startswith :: "string \<Rightarrow> string \<Rightarrow> bool" where
  "startswith s p = (take (length p) s = p)"

fun contains :: "string \<Rightarrow> string \<Rightarrow> bool" where
  "contains sub [] = (sub = [])"
| "contains sub (c # cs) = (startswith (c # cs) sub \<or> contains sub cs)"

section \<open>The domain extractor (\<open>ContentAnalyzer.extract_domain\<close>)\<close>

text \<open>Equality of a text with a pattern literal, under \<open>re.IGNORECASE\<close> when \<open>ic\<close> is set.\<close>

definition lit_eq :: "bool \<Rightarrow> string \<Rightarrow> string \<Rightarrow> bool" where
  "lit_eq ic text pat = (if ic then lower text = lower pat else text = pat)"

text \<open>\<open>[a-z]\<close>, which under \<open>re.IGNORECASE\<close> also matches \<open>[A-Z]\<close>.\<close>

definition az :: "bool \<Rightarrow> char \<Rightarrow> bool" where
  "az ic c = (c \<in> set ascii_lowercase \<or> (ic \<and> c \<in> set ascii_uppercase))"

text \<open>
  The pattern \<open>- ([^-]+\.com)\<close> tried at the start of \<open>s\<close>. After the literal \<open>"- "\<close> the
  greedy \<open>[^-]+\<close> first takes the whole run of non-dash characters and then gives back one
  character at a time until \<open>\.com\<close> follows: the candidates \<open>k\<close> for its length are tried
  from the longest down to 1. The value is group 1.
\<close>

definition match_dash_com :: "bool \<Rightarrow> string \<Rightarrow> string option" where
  "match_dash_com ic s =
     (if startswith s ''- ''
      then (let rest = drop 2 s;
                n = length (takeWhile (\<lambda>c. c \<noteq> CHR ''-'') rest)
            in case filter (\<lambda>k. lit_eq ic (take 4 (drop k rest)) ''.com'') (rev [1..<n + 1]) of
                 [] \<Rightarrow> None
               | k # _ \<Rightarrow> Some (take (k + 4) rest))
      else None)"

text \<open>
  The pattern \<open>([^|\s]+\.[a-z]{2,4})\<close> tried at the start of \<open>s\<close>: the greedy \<open>[^|\s]+\<close> gives
  back characters until a dot and at least two letters follow; the greedy \<open>{2,4}\<close> then takes
  as many letters as there are, at most four.
\<close>

definition match_dotted :: "bool \<Rightarrow> string \<Rightarrow> string option" where
  "match_dotted ic s =
     (let n = length (takeWhile (\<lambda>c. c \<noteq> CHR ''|'' \<and> \<not> is_space c) s);
          letters = (\<lambda>k. length (takeWhile (az ic) (drop (k + 1) s)))
      in case filter (\<lambda>k. take 1 (drop k s) = ''.'' \<and> 2 \<le> letters k) (rev [1..<n + 1]) of
           [] \<Rightarrow> None
         | k # _ \<Rightarrow> Some (take (k + 1 + min 4 (letters k)) s))"

text \<open>\<open>re.search\<close>: the first position of the text at which the pattern matches.\<close>

fun re_search :: "(string \<Rightarrow> string option) \<Rightarrow> string \<Rightarrow> string option" where
  "re_search m [] = m []"
| "re_search m (c # cs) = (case m (c # cs) of Some g \<Rightarrow> Some g | None \<Rightarrow> re_search m cs)"

text \<open>
  \<open>extract_domain\<close> of v3.py (111-140). The loop tries the two capturing patterns and then
  the four literal patterns, all under \<open>re.IGNORECASE\<close> on the title as given; a literal
  pattern that matches yields the lower-cased pattern itself.
\<close>

definition extract_domain_v3 :: "string \<Rightarrow> string \<Rightarrow> string" where
  "extract_domain_v3 title_arg process_arg =
     (let title_lower = lower title_arg; process_lower = lower process_arg in
      if contains ''code'' process_lower \<or> contains ''visual studio code'' title_lower
      then (if contains ''focusflow'' title_lower \<or> contains ''daip'' title_lower
            then ''focusflow'' else ''code'')
      else
        (case re_search (match_dash_com True) title_arg of
           Some g \<Rightarrow> lower g
         | None \<Rightarrow>
        (case re_search (match_dotted True) title_arg of
           Some g \<Rightarrow> lower g
         | None \<Rightarrow>
        (case filter (\<lambda>pat. contains (lower pat) (lower title_arg))
                [''YouTube'', ''Wikipedia'', ''GitHub'', ''Stack Overflow''] of
           pat # _ \<Rightarrow> lower pat
         | [] \<Rightarrow>
             if contains ''youtube'' title_lower then ''youtube.com''
             else if contains ''wikipedia'' title_lower then ''wikipedia.org''
             else if contains ''stack overflow'' title_lower then ''stackoverflow.com''
             else if contains ''github'' title_lower then ''github.com''
             else process_lower))))"

text \<open>
  \<open>extract_domain\<close> of v4.py (94-120): the two capturing patterns on the lower-cased
  title without flags, then the table of platform names in insertion order.
\<close>

definition predefined_domains :: "(string \<times> string) list" where
  "predefined_domains =
     [(''youtube'', ''youtube.com''), (''wikipedia'', ''wikipedia.org''),
      (''stack overflow'', ''stackoverflow.com''), (''github'', ''github.com'')]"

definition extract_domain_v4 :: "string \<Rightarrow> string \<Rightarrow> string" where
  "extract_domain_v4 title_arg process_arg =
     (let title_lower = lower title_arg; process_lower = lower process_arg in
      if contains ''code'' process_lower \<or> contains ''visual studio code'' title_lower
      then ''code''
      else
        (case re_search (match_dash_com False) title_lower of
           Some g \<Rightarrow> lower g
         | None \<Rightarrow>
        (case re_search (match_dotted False) title_lower of
           Some g \<Rightarrow> lower g
         | None \<Rightarrow>
        (case filter (\<lambda>(name, domain). contains name title_lower) predefined_domains of
           (name, domain) # _ \<Rightarrow> domain
         | [] \<Rightarrow> process_lower))))"

section \<open>The keyword deriver\<close>

text \<open>
  The values \<open>json.loads\<close> yields. A keyword list is a Python list of such values: the
  code never checks that its items are strings.
\<close>

datatype json =
  Json_null
| Json_bool bool
| Json_int int
| Json_float real
| Json_string string
| Json_array "json list"
| Json_object "(string \<times> json) list"

text \<open>The strings of a list whose items are all strings, \<open>None\<close> if one is not.\<close>

fun strings_of :: "json list \<Rightarrow> string list option" where
  "strings_of [] = Some []"
| "strings_of (Json_string s # xs) = map_option ((#) s) (strings_of xs)"
| "strings_of (_ # xs) = None"

text \<open>Python lists and dicts cannot be hashed, so \<open>set(...)\<close> raises on them.\<close>

fun hashable :: "json \<Rightarrow> bool" where
  "hashable (Json_array _) = False"
| "hashable (Json_object _) = False"
| "hashable _ = True"

text \<open>
  The analyzer's two caches. The hash \<open>hashlib.md5(...).hexdigest()\<close> is a parameter \<open>hexdigest\<close> of
  every operation that computes a cache key, so that the results hold for whichever
  function it is.
\<close>

record analyzer =
  keyword_cache :: "string \<rightharpoonup> json list"
  classification_cache :: "string \<rightharpoonup> real \<times> string"

definition empty_analyzer :: analyzer where
  "empty_analyzer = \<lparr> keyword_cache = Map.empty, classification_cache = Map.empty \<rparr>"

text \<open>
  What the request and the parsing inside the \<open>try\<close> block come to (v3.py 170-181, v4.py
  141-152): an exception from \<open>requests.post\<close>, \<open>raise_for_status\<close>, \<open>response.json()\<close> or the
  subscripts; no \<open>[...]\<close> in the content, for which the code raises \<open>ValueError\<close> itself; an
  exception from \<open>json.loads\<close>; or the parsed array, whatever its items are (a text that
  starts with \<open>[\<close> and parses is an array).
\<close>

datatype keyword_reply =
  Kw_request_failed
| Kw_no_array
| Kw_json_error
| Kw_array "json list"

definition keyword_cache_key :: "(string \<Rightarrow> string) \<Rightarrow> string \<Rightarrow> string \<Rightarrow> string" where
  "keyword_cache_key hexdigest g descr = hexdigest (g @ ''_'' @ descr)"

text \<open>
  \<open>_ai_generate_keywords\<close> (v3.py 142-185). The reply is consulted only on a cache miss.
  \<open>list(set(words))\<close> enumerates the distinct words in an order Python does not specify;
  the enumeration is the parameter \<open>list_of_set\<close>. Every exception raised inside \<open>try\<close> is
  caught by \<open>except Exception\<close>, whose handler cannot raise: the function always returns.
  The declared result type is \<open>List[str]\<close>; the list returned holds whatever the parsed array
  held.
\<close>

definition ai_generate_keywords ::
  "(string \<Rightarrow> string) \<Rightarrow> (string list \<Rightarrow> string list) \<Rightarrow> analyzer \<Rightarrow> string \<Rightarrow> string \<Rightarrow>
   keyword_reply \<Rightarrow> json list \<times> analyzer" where
  "ai_generate_keywords hexdigest list_of_set an g descr reply =
     (let cache_key = keyword_cache_key hexdigest g descr in
      case keyword_cache an cache_key of
        Some cached \<Rightarrow> (cached, an)
      | None \<Rightarrow>
          (case reply of
             Kw_array keywords \<Rightarrow>
               (let keywords' =
                      (if length keywords < 20
                       then keywords
                            @ map Json_string (str_split (lower g) @ str_split (lower descr))
                       else keywords);
                    stored = take 50 keywords'
                in (stored, an\<lparr> keyword_cache := (keyword_cache an)(cache_key \<mapsto> stored) \<rparr>))
           | _ \<Rightarrow>
               (let words = findall_word (lower g @ '' '' @ lower descr)
                in (map Json_string (take 50 (list_of_set words)), an))))"

text \<open>\<open>_llm_generate_keywords\<close> (v4.py 122-156): the same steps against the local service.\<close>

definition llm_generate_keywords ::
  "(string \<Rightarrow> string) \<Rightarrow> (string list \<Rightarrow> string list) \<Rightarrow> analyzer \<Rightarrow> string \<Rightarrow> string \<Rightarrow>
   keyword_reply \<Rightarrow> json list \<times> analyzer" where
  "llm_generate_keywords hexdigest list_of_set an g descr reply =
     (let cache_key = keyword_cache_key hexdigest g descr in
      case keyword_cache an cache_key of
        Some cached \<Rightarrow> (cached, an)
      | None \<Rightarrow>
          (case reply of
             Kw_array keywords \<Rightarrow>
               (let keywords' =
                      (if length keywords < 20
                       then keywords
                            @ map Json_string (str_split (lower g) @ str_split (lower descr))
                       else keywords);
                    stored = take 50 keywords'
                in (stored, an\<lparr> keyword_cache := (keyword_cache an)(cache_key \<mapsto> stored) \<rparr>))
           | _ \<Rightarrow>
               (let words = findall_word (lower g @ '' '' @ lower descr)
                in (map Json_string (take 50 (list_of_set words)), an))))"

text \<open>
  What the fallback is said to return, in the spec's words: a duplicate-free list of at
  most 50 of the word tokens of the lower-cased goal and description, all of them when
  there are at most 50 distinct ones; each entry is a non-empty run of word characters
  without upper-case letters.
\<close>

definition is_token_fallback :: "string \<Rightarrow> string \<Rightarrow> string list \<Rightarrow> bool" where
  "is_token_fallback g descr r =
     (let tokens = set (findall_word (lower g @ '' '' @ lower descr)) in
      distinct r \<and> length r \<le> 50 \<and> set r \<subseteq> tokens \<and>
      (card tokens \<le> 50 \<longrightarrow> set r = tokens) \<and>
      (\<forall>w \<in> set r. w \<noteq> [] \<and> (\<forall>c \<in> set w. is_word_char c \<and> c \<notin> set ascii_uppercase)))"

section \<open>The relevance classifier\<close>

text \<open>
  Scores are Python floats; they are modelled as reals. The properties below rest on the
  comparisons made on a score, not on how sums are rounded.
\<close>

definition valid_classifications :: "string list" where
  "valid_classifications = [''DIRECT'', ''PERIPHERAL'', ''INDIRECT'', ''DISTRACTION'']"

text \<open>
  The \<open>if/elif\<close> chain that ends both versions of \<open>_rule_based_classify\<close> (v3.py 266-273,
  v4.py 240-247), which is the same text in both.
\<close>

definition classification_bands :: "real \<Rightarrow> string" where
  "classification_bands final_score =
     (if final_score \<ge> 0.8 then ''DIRECT''
      else if final_score \<ge> 0.6 then ''PERIPHERAL''
      else if final_score \<ge> 0.3 then ''INDIRECT''
      else ''DISTRACTION'')"

subsection \<open>v3.py: domain tables and scored backend\<close>

definition educational_domains :: "(string \<times> real) list" where
  "educational_domains =
     [(''youtube.com'', 0.7), (''coursera.org'', 0.95), (''edx.org'', 0.95),
      (''khanacademy.org'', 0.95), (''arxiv.org'', 0.90), (''wikipedia.org'', 0.80),
      (''stackoverflow.com'', 0.85), (''github.com'', 0.80), (''medium.com'', 0.60),
      (''towardsdatascience.com'', 0.85), (''papers.withcode.com'', 0.90),
      (''scholar.google.com'', 0.90), (''researchgate.net'', 0.85), (''code'', 0.85),
      (''focusflow'', 0.90), (''daip'', 0.90)]"

definition distraction_domains :: "(string \<times> real) list" where
  "distraction_domains =
     [(''facebook.com'', 0.05), (''twitter.com'', 0.10), (''instagram.com'', 0.05),
      (''tiktok.com'', 0.05), (''reddit.com'', 0.20), (''netflix.com'', 0.05),
      (''twitch.tv'', 0.10), (''gaming'', 0.15)]"

definition ambiguous_domains :: "string list" where
  "ambiguous_domains = [''youtube.com'', ''code'', ''focusflow'', ''daip'', ''medium.com'']"

definition project_terms :: "string list" where
  "project_terms = [''focusflow'', ''daip'', ''v3.py'', ''activity_tracker'']"

definition educational_terms :: "string list" where
  "educational_terms =
     [''lecture'', ''tutorial'', ''course'', ''crash course'', ''educational'',
      ''introduction'', ''neural'', ''cnn'', ''convolutional'']"

text \<open>The loop \<open>for keyword in keywords: if keyword.lower() in title_lower: score += step\<close>.\<close>

definition add_keyword_matches :: "real \<Rightarrow> real \<Rightarrow> string \<Rightarrow> string list \<Rightarrow> real" where
  "add_keyword_matches step score0 title_lower keywords =
     foldl (\<lambda>acc keyword. if contains (lower keyword) title_lower then acc + step else acc)
       score0 keywords"

text \<open>\<open>_rule_based_classify\<close> of v3.py (239-275).\<close>

definition rule_based_classify_v3 ::
  "string \<Rightarrow> string \<Rightarrow> string \<Rightarrow> string \<Rightarrow> string list \<Rightarrow> real \<times> string" where
  "rule_based_classify_v3 title_arg g descr domain keywords =
     (let title_lower = lower title_arg;
          description_lower = lower descr;
          base_score0 = (case map_of educational_domains domain of Some v \<Rightarrow> v | None \<Rightarrow> 0.5);
          base_score1 =
            (if domain = ''focusflow'' \<or> list_ex (\<lambda>term. contains term title_lower) project_terms
             then max base_score0 0.9 else base_score0);
          base_score =
            (case map_of distraction_domains domain of
               Some v \<Rightarrow> min base_score1 v
             | None \<Rightarrow> base_score1);
          content_score0 = add_keyword_matches 0.2 0.0 title_lower keywords;
          content_score1 =
            (if list_ex (\<lambda>word. contains word title_lower) (str_split description_lower)
             then content_score0 + 0.3 else content_score0);
          content_score =
            (if domain = ''youtube.com''
                \<and> list_ex (\<lambda>term. contains term title_lower) educational_terms
             then content_score1 + 0.4 else content_score1);
          final_score = min ((base_score + content_score) / 2) 1.0
      in (final_score, classification_bands final_score))"

text \<open>
  What the request and the parsing inside the \<open>try\<close> block of \<open>_ai_classify\<close> come to (v3.py
  222-234): an exception before the content is at hand; no \<open>{...}\<close> in the content; an
  exception from \<open>json.loads\<close>; or the parsed object, of which only the entries
  \<open>relevance_score\<close> and \<open>classification\<close> are read (\<open>None\<close> for a missing key, whose lookup
  raises \<open>KeyError\<close>). The two entries are taken to have the declared types \<open>float\<close> and
  \<open>str\<close>.
\<close>

datatype ai_reply =
  Ai_request_failed
| Ai_no_json
| Ai_json_error
| Ai_object "real option" "string option"

definition classification_cache_key ::
  "(string \<Rightarrow> string) \<Rightarrow> string \<Rightarrow> string \<Rightarrow> string \<Rightarrow> string \<Rightarrow> string" where
  "classification_cache_key hexdigest title_arg g descr domain =
     hexdigest (title_arg @ ''_'' @ g @ ''_'' @ descr @ ''_'' @ domain)"

text \<open>
  \<open>_ai_classify\<close> (v3.py 187-237). The prompt is built before the \<open>try\<close> block with
  \<open>', '.join(keywords)\<close>, which raises \<open>TypeError\<close> to the caller when an item is not a
  string; the keyword cache has been written by then. The value is the result or the
  exception, together with the analyzer as the call leaves it.
\<close>

definition ai_classify ::
  "(string \<Rightarrow> string) \<Rightarrow> (string list \<Rightarrow> string list) \<Rightarrow> analyzer \<Rightarrow>
   string \<Rightarrow> string \<Rightarrow> string \<Rightarrow> string \<Rightarrow> keyword_reply \<Rightarrow> ai_reply \<Rightarrow>
   (py_error + real \<times> string) \<times> analyzer" where
  "ai_classify hexdigest list_of_set an title_arg g descr domain kw_reply reply =
     (let cache_key = classification_cache_key hexdigest title_arg g descr domain in
      case classification_cache an cache_key of
        Some cached \<Rightarrow> (Inr cached, an)
      | None \<Rightarrow>
          (let (keywords, an1) = ai_generate_keywords hexdigest list_of_set an g descr kw_reply
           in case strings_of keywords of
                None \<Rightarrow> (Inl TypeError, an1)
              | Some kws \<Rightarrow>
                  (case reply of
                     Ai_object (Some score) (Some cls) \<Rightarrow>
                       (Inr (score, cls),
                        an1\<lparr> classification_cache :=
                               (classification_cache an1)(cache_key \<mapsto> (score, cls)) \<rparr>)
                   | _ \<Rightarrow> (Inr (rule_based_classify_v3 title_arg g descr domain kws), an1))))"

text \<open>
  \<open>calculate_relevance_score\<close> of v3.py (277-281); \<open>use_ai\<close> is \<open>bool(self.api_key)\<close>. On the
  rule-based path \<open>list(set(keywords))\<close> raises \<open>TypeError\<close> when an item is a list or a dict,
  and otherwise every item that is not a string survives into the list handed to
  \<open>_rule_based_classify\<close>, whose loop raises \<open>AttributeError\<close> at \<open>keyword.lower()\<close>.
\<close>

definition calculate_relevance_score_v3 ::
  "(string \<Rightarrow> string) \<Rightarrow> (string list \<Rightarrow> string list) \<Rightarrow> bool \<Rightarrow> analyzer \<Rightarrow>
   string \<Rightarrow> string \<Rightarrow> string \<Rightarrow> string \<Rightarrow> keyword_reply \<Rightarrow> ai_reply \<Rightarrow>
   (py_error + real \<times> string) \<times> analyzer" where
  "calculate_relevance_score_v3 hexdigest list_of_set use_ai an title_arg g descr domain
     kw_reply reply =
     (if use_ai \<and> domain \<in> set ambiguous_domains
      then ai_classify hexdigest list_of_set an title_arg g descr domain kw_reply reply
      else if use_ai
      then
        (let (keywords, an1) = ai_generate_keywords hexdigest list_of_set an g descr kw_reply
         in if \<not> list_all hashable keywords then (Inl TypeError, an1)
            else
              (case strings_of keywords of
                 None \<Rightarrow> (Inl AttributeError, an1)
               | Some kws \<Rightarrow>
                   (Inr (rule_based_classify_v3 title_arg g descr domain
                           (take 50 (list_of_set kws))),
                    an1)))
      else
        (let keywords = findall_word (lower g @ '' '' @ lower descr)
         in (Inr (rule_based_classify_v3 title_arg g descr domain
                    (take 50 (list_of_set keywords))),
             an)))"

subsection \<open>v4.py: label-only backend\<close>

text \<open>\<open>_score_from_classification\<close> (v4.py 210-218).\<close>

definition score_from_classification :: "string \<Rightarrow> real" where
  "score_from_classification cls =
     (case map_of [(''DIRECT'', 0.9), (''PERIPHERAL'', 0.7), (''INDIRECT'', 0.4),
                   (''DISTRACTION'', 0.1)] cls of
        Some v \<Rightarrow> v
      | None \<Rightarrow> 0.0)"

definition distraction_domains_v4 :: "string list" where
  "distraction_domains_v4 =
     [''facebook.com'', ''twitter.com'', ''instagram.com'', ''tiktok.com'', ''reddit.com'',
      ''netflix.com'', ''twitch.tv'']"

text \<open>\<open>_rule_based_classify\<close> of v4.py (220-249).\<close>

definition rule_based_classify_v4 ::
  "string \<Rightarrow> string \<Rightarrow> string \<Rightarrow> string \<Rightarrow> string list \<Rightarrow> real \<times> string" where
  "rule_based_classify_v4 title_arg g descr domain keywords =
     (let title_lower = lower title_arg;
          final_score0 = add_keyword_matches 0.1 0.5 title_lower keywords;
          final_score1 =
            (if list_ex (\<lambda>term. contains term title_lower) project_terms
             then final_score0 + 0.3 else final_score0);
          final_score2 =
            (if domain \<in> set distraction_domains_v4
             then max 0.05 (final_score1 - 0.4) else final_score1);
          final_score = min final_score2 1.0
      in (final_score, classification_bands final_score))"

text \<open>
  The reply of the local service to \<open>_llm_classify\<close> (v4.py 188-191): an exception before
  the text is at hand, or the text of the \<open>response\<close> entry.
\<close>

datatype llm_reply =
  Llm_request_failed
| Llm_response string

text \<open>
  \<open>_llm_classify\<close> (v4.py 158-207). As in v3.py the prompt is built before the \<open>try\<close> block
  with \<open>', '.join(keywords)\<close>, which raises \<open>TypeError\<close> to the caller when an item is not a
  string.
\<close>

definition llm_classify ::
  "(string \<Rightarrow> string) \<Rightarrow> (string list \<Rightarrow> string list) \<Rightarrow> analyzer \<Rightarrow>
   string \<Rightarrow> string \<Rightarrow> string \<Rightarrow> string \<Rightarrow> keyword_reply \<Rightarrow> llm_reply \<Rightarrow>
   (py_error + real \<times> string) \<times> analyzer" where
  "llm_classify hexdigest list_of_set an title_arg g descr domain kw_reply reply =
     (let cache_key = classification_cache_key hexdigest title_arg g descr domain in
      case classification_cache an cache_key of
        Some cached \<Rightarrow> (Inr cached, an)
      | None \<Rightarrow>
          (let (keywords, an1) = llm_generate_keywords hexdigest list_of_set an g descr kw_reply
           in case strings_of keywords of
                None \<Rightarrow> (Inl TypeError, an1)
              | Some kws \<Rightarrow>
                  (case reply of
                     Llm_response raw \<Rightarrow>
                       (let cls = upper (strip raw) in
                        if cls \<notin> set valid_classifications
                        then (Inr (rule_based_classify_v4 title_arg g descr domain kws), an1)
                        else
                          (let score = score_from_classification cls
                           in (Inr (score, cls),
                               an1\<lparr> classification_cache :=
                                      (classification_cache an1)
                                        (cache_key \<mapsto> (score, cls)) \<rparr>)))
                   | Llm_request_failed \<Rightarrow>
                       (Inr (rule_based_classify_v4 title_arg g descr domain kws), an1))))"

text \<open>\<open>calculate_relevance_score\<close> of v4.py (251-261); \<open>is_ollama_up\<close> is the result of the
  status check.\<close>

definition calculate_relevance_score_v4 ::
  "(string \<Rightarrow> string) \<Rightarrow> (string list \<Rightarrow> string list) \<Rightarrow> bool \<Rightarrow> analyzer \<Rightarrow>
   string \<Rightarrow> string \<Rightarrow> string \<Rightarrow> string \<Rightarrow> keyword_reply \<Rightarrow> llm_reply \<Rightarrow>
   (py_error + real \<times> string) \<times> analyzer" where
  "calculate_relevance_score_v4 hexdigest list_of_set is_ollama_up an title_arg g descr domain
     kw_reply reply =
     (if is_ollama_up
      then llm_classify hexdigest list_of_set an title_arg g descr domain kw_reply reply
      else
        (let keywords = findall_word (lower g @ '' '' @ lower descr)
         in (Inr (rule_based_classify_v4 title_arg g descr domain keywords), an)))"

subsection \<open>The contract in the spec's words\<close>

text \<open>
  \<open>banded r\<close>: the score lies in \<open>[0,1]\<close> and the label is the one the bands give it.
  \<open>in_taxonomy r\<close>: the score lies in \<open>[0,1]\<close> and the label is one of the four.
  \<open>cache_banded\<close> says the former of every cached result.
\<close>

definition banded :: "real \<times> string \<Rightarrow> bool" where
  "banded r =
     (case r of (score, cls) \<Rightarrow>
        0 \<le> score \<and> score \<le> 1 \<and>
        (score \<ge> 0.8 \<longrightarrow> cls = ''DIRECT'') \<and>
        (0.6 \<le> score \<and> score < 0.8 \<longrightarrow> cls = ''PERIPHERAL'') \<and>
        (0.3 \<le> score \<and> score < 0.6 \<longrightarrow> cls = ''INDIRECT'') \<and>
        (score < 0.3 \<longrightarrow> cls = ''DISTRACTION''))"

definition in_taxonomy :: "real \<times> string \<Rightarrow> bool" where
  "in_taxonomy r = (case r of (score, cls) \<Rightarrow>
      0 \<le> score \<and> score \<le> 1 \<and> cls \<in> set valid_classifications)"

definition cache_banded :: "analyzer \<Rightarrow> bool" where
  "cache_banded an = (\<forall>k r. classification_cache an k = Some r \<longrightarrow> banded r)"

section \<open>Time and records\<close>

text \<open>
  A Python \<open>datetime\<close> is modelled as a number of microseconds on the time line and a
  \<open>timedelta\<close> as a number of microseconds: both have microsecond resolution in Python and
  their arithmetic is exact, so \<open>int\<close> is the faithful carrier. \<open>total_seconds()\<close> divides by
  \<open>10**6\<close> and yields a float; floats are modelled as exact reals throughout.
\<close>

type_synonym datetime = int
type_synonym timedelta = int


record activity =
  timestamp :: datetime
  title :: string
  process :: string
  url :: "string option"
  classification :: string
  relevance_score :: real
  duration :: "timedelta option"
  tags :: "string list"

record focus_session =
  goal :: string
  description :: string
  start_time :: datetime
  end_time :: "datetime option"
  activities :: "activity list"


record window_info =
  win_title :: string
  win_process :: string
  pid :: "int option"

subsection \<open>The persistence sink (\<open>FocusDatabase\<close>)\<close>

record session_row =
  row_goal :: string
  row_description :: string
  row_start_time :: datetime
  row_end_time :: "datetime option"
  row_total_duration :: "int option"

record activity_row =
  row_session_id :: nat
  row_timestamp :: datetime
  row_title :: string
  row_process :: string
  row_url :: "string option"
  row_classification :: string
  row_relevance_score :: real
  row_duration :: "int option"
  row_tags :: "string option"

record focus_database =
  sessions :: "session_row list"
  activity_rows :: "activity_row list"

text \<open>\<open>int(td.total_seconds())\<close>: truncation towards zero of the number of seconds.\<close>

definition int_total_seconds :: "timedelta \<Rightarrow> int" where
  "int_total_seconds d = (if 0 \<le> d then d div 1000000 else - ((- d) div 1000000))"

fun join_comma :: "string list \<Rightarrow> string" where
  "join_comma [] = []"
| "join_comma [x] = x"
| "join_comma (x # y # ys) = x @ '','' @ join_comma (y # ys)"

text \<open>\<open>save_session\<close> inserts one row and returns \<open>cursor.lastrowid\<close>; the table is
  \<open>AUTOINCREMENT\<close> and never deleted from, so the id is the new number of rows.\<close>

definition save_session :: "focus_database \<Rightarrow> focus_session \<Rightarrow> nat \<times> focus_database" where
  "save_session db s =
     (let row = \<lparr> row_goal = goal s, row_description = description s,
                   row_start_time = start_time s, row_end_time = end_time s,
                   row_total_duration =
                     (case end_time s of
                        Some e \<Rightarrow> Some (int_total_seconds (e - start_time s))
                      | None \<Rightarrow> None) \<rparr>
      in (length (sessions db) + 1, db\<lparr> sessions := sessions db @ [row] \<rparr>))"

text \<open>\<open>save_activity\<close>: a zero \<open>timedelta\<close> and an empty tag list are falsy in Python and are
  stored as \<open>NULL\<close>.\<close>

definition save_activity :: "nat \<Rightarrow> activity \<Rightarrow> focus_database \<Rightarrow> focus_database" where
  "save_activity session_id a db =
     (let row = \<lparr> row_session_id = session_id, row_timestamp = timestamp a,
                   row_title = title a, row_process = process a, row_url = url a,
                   row_classification = classification a,
                   row_relevance_score = relevance_score a,
                   row_duration =
                     (case duration a of
                        Some d \<Rightarrow> (if d \<noteq> 0 then Some (int_total_seconds d) else None)
                      | None \<Rightarrow> None),
                   row_tags = (if tags a \<noteq> [] then Some (join_comma (tags a)) else None) \<rparr>
      in db\<lparr> activity_rows := activity_rows db @ [row] \<rparr>)"

section \<open>The session state machine (\<open>EnhancedWindowMonitor\<close>)\<close>

record monitor =
  database :: focus_database
  current_session :: "focus_session option"
  current_activity :: "activity option"
  last_window_info :: "window_info option"
  activity_start_time :: "datetime option"
  running :: bool
  session_stats :: "(string \<times> timedelta) list"
  recent_activities :: "activity list"
  context_switches :: nat
  last_classification :: "string option"

text \<open>\<open>__init__\<close>: no session, no activity, the four statistics at zero.\<close>

definition init_monitor :: monitor where
  "init_monitor =
     \<lparr> database = \<lparr> sessions = [], activity_rows = [] \<rparr>,
       current_session = None, current_activity = None, last_window_info = None,
       activity_start_time = None, running = True,
       session_stats = [(''DIRECT'', 0), (''PERIPHERAL'', 0), (''INDIRECT'', 0),
                        (''DISTRACTION'', 0)],
       recent_activities = [], context_switches = 0, last_classification = None \<rparr>"

text \<open>\<open>self.session_stats[k] += d\<close> on a dict: \<open>KeyError\<close> when \<open>k\<close> is not a key, otherwise
  the entry is replaced in place (the order of the keys is kept).\<close>

definition stats_add ::
  "(string \<times> timedelta) list \<Rightarrow> string \<Rightarrow> timedelta \<Rightarrow> py_error + (string \<times> timedelta) list" where
  "stats_add stats k d =
     (if k \<in> set (map fst stats)
      then Inr (map (\<lambda>(k', v). if k' = k then (k', v + d) else (k', v)) stats)
      else Inl KeyError)"

text \<open>\<open>deque(maxlen=50).append\<close>: the oldest entry is dropped when the deque is full.\<close>

definition deque_append :: "'a list \<Rightarrow> 'a \<Rightarrow> 'a list" where
  "deque_append xs x = (let ys = xs @ [x] in drop (length ys - 50) ys)"

text \<open>
  \<open>end_session\<close> (v3.py 409-426, v4.py 391-408, the same text in v2.py). The two reads of
  the clock are the parameters \<open>now_close\<close> and \<open>now_end\<close>. The summary is printed only; it is
  modelled by \<open>display_session_summary\<close> below. \<open>current_activity\<close> and
  \<open>activity_start_time\<close> are not reset.
\<close>

definition end_session :: "monitor \<Rightarrow> datetime \<Rightarrow> datetime \<Rightarrow> py_error + monitor" where
  "end_session m now_close now_end =
     (case current_session m of
        None \<Rightarrow> Inr m
      | Some s \<Rightarrow>
          (let closed =
                 (case (current_activity m, activity_start_time m) of
                    (Some a, Some st) \<Rightarrow>
                      (let d = now_close - st in
                       case stats_add (session_stats m) (classification a) d of
                         Inl e \<Rightarrow> Inl e
                       | Inr stats' \<Rightarrow>
                           Inr (m\<lparr> current_activity := Some (a\<lparr> duration := Some d \<rparr>),
                                   session_stats := stats' \<rparr>))
                  | _ \<Rightarrow> Inr m)
           in case closed of
                Inl e \<Rightarrow> Inl e
              | Inr m1 \<Rightarrow>
                  (let s' = s\<lparr> end_time := Some now_end \<rparr>;
                       (session_id, db1) = save_session (database m1) s';
                       db2 = fold (save_activity session_id) (activities s') db1
                   in Inr (m1\<lparr> database := db2, current_session := None \<rparr>))))"

text \<open>
  \<open>start_session\<close> (v3.py 389-407): ends a running session first, then reads the clock for
  the new session's \<open>start_time\<close>.
\<close>

definition start_session ::
  "monitor \<Rightarrow> string \<Rightarrow> string \<Rightarrow> datetime \<Rightarrow> datetime \<Rightarrow> datetime \<Rightarrow> py_error + monitor" where
  "start_session m g descr now_close now_end now_start =
     (case (if current_session m \<noteq> None then end_session m now_close now_end else Inr m) of
        Inl e \<Rightarrow> Inl e
      | Inr m1 \<Rightarrow>
          Inr (m1\<lparr> current_session :=
                      Some \<lparr> goal = g, description = descr, start_time = now_start,
                             end_time = None, activities = [] \<rparr>,
                    session_stats := map (\<lambda>(k, v). (k, 0)) (session_stats m1),
                    context_switches := 0,
                    recent_activities := [] \<rparr>))"

text \<open>
  \<open>process_window_change\<close> (v3.py 511-551). The content analyzer is an injected
  collaborator; the values it returns at lines 524-530 are the parameters \<open>domain\<close> and
  \<open>(score, cls)\<close>. The counter of context switches follows v3 (only a change that lands on
  DISTRACTION counts; v4.py 507 counts every change); an empty string is falsy in
  \<open>self.last_classification and ...\<close>. The two display calls at the end only print.
\<close>

definition process_window_change ::
  "monitor \<Rightarrow> window_info \<Rightarrow> datetime \<Rightarrow> string \<Rightarrow> real \<times> string \<Rightarrow> py_error + monitor" where
  "process_window_change m w now domain res =
     (case current_session m of
        None \<Rightarrow> Inr m
      | Some s \<Rightarrow>
          (let closed =
                 (case (current_activity m, activity_start_time m) of
                    (Some a, Some st) \<Rightarrow>
                      (let d = now - st; a' = a\<lparr> duration := Some d \<rparr> in
                       case stats_add (session_stats m) (classification a) d of
                         Inl e \<Rightarrow> Inl e
                       | Inr stats' \<Rightarrow>
                           Inr (m\<lparr> current_activity := Some a',
                                   session_stats := stats',
                                   current_session :=
                                     Some (s\<lparr> activities := activities s @ [a'] \<rparr>),
                                   recent_activities :=
                                     deque_append (recent_activities m) a' \<rparr>))
                  | _ \<Rightarrow> Inr m)
           in case closed of
                Inl e \<Rightarrow> Inl e
              | Inr m1 \<Rightarrow>
                  (let (score, cls) = res;
                       new_activity =
                         \<lparr> timestamp = now, title = win_title w, process = win_process w,
                           url = Some domain, classification = cls,
                           relevance_score = score, duration = None, tags = [domain] \<rparr>;
                       switched =
                         (case last_classification m1 of
                            None \<Rightarrow> False
                          | Some l \<Rightarrow> l \<noteq> [] \<and> l \<noteq> cls \<and> cls = ''DISTRACTION'')
                   in Inr (m1\<lparr> current_activity := Some new_activity,
                               activity_start_time := Some now,
                               context_switches :=
                                 (if switched then context_switches m1 + 1
                                  else context_switches m1),
                               last_classification := Some cls \<rparr>))))"



section \<open>Running the machine\<close>

text \<open>
  Sequencing of calls that may raise, and the polling loop delivering successive
  observations to \<open>process_window_change\<close> with no other operation in between. An
  observation carries the window, the clock value read by the call, and the analyzer's
  domain and classification result.
\<close>

definition then_do :: "py_error + 'a \<Rightarrow> ('a \<Rightarrow> py_error + 'b) \<Rightarrow> py_error + 'b" where
  "then_do r f = (case r of Inl e \<Rightarrow> Inl e | Inr x \<Rightarrow> f x)"

type_synonym observation = "window_info \<times> datetime \<times> string \<times> (real \<times> string)"

fun observe_all :: "monitor \<Rightarrow> observation list \<Rightarrow> py_error + monitor" where
  "observe_all m [] = Inr m"
| "observe_all m ((w, now, domain, res) # obs) =
     then_do (process_window_change m w now domain res) (\<lambda>m'. observe_all m' obs)"

definition activity_duration :: "activity \<Rightarrow> timedelta" where
  "activity_duration a = (case duration a of Some d \<Rightarrow> d | None \<Rightarrow> 0)"

definition closed_durations :: "focus_session \<Rightarrow> timedelta" where
  "closed_durations s = sum_list (map activity_duration (activities s))"



definition stats_total :: "monitor \<Rightarrow> timedelta" where
  "stats_total m = sum_list (map snd (session_stats m))"


definition balanced :: "monitor \<Rightarrow> bool" where
  "balanced m =
     (distinct (map fst (session_stats m)) \<and>
      (case current_session m of
         None \<Rightarrow> True
       | Some s \<Rightarrow> stats_total m = closed_durations s))"

text \<open>
  \<open>stats_nonneg m\<close>: no accumulated time is negative. \<open>clock_ahead m now\<close>: the clock value
  \<open>now\<close> is not before the start of the open activity.
\<close>

definition stats_nonneg :: "monitor \<Rightarrow> bool" where
  "stats_nonneg m = list_all (\<lambda>(k, v). 0 \<le> v) (session_stats m)"

definition clock_ahead :: "monitor \<Rightarrow> datetime \<Rightarrow> bool" where
  "clock_ahead m now = (case activity_start_time m of None \<Rightarrow> True | Some st \<Rightarrow> st \<le> now)"

subsection \<open>Concrete runs\<close>


text \<open>
  The observation that the polling loop hands over for a window at time \<open>now\<close> when the
  analyzer is that of v3.py with empty caches: the domain from \<open>extract_domain\<close> and the
  result of \<open>calculate_relevance_score\<close> for the session's goal and description. Without
  an API key (\<open>use_ai\<close> false) the replies are never asked for. An exception of the
  analyzer is the value of the observation.
\<close>

definition observe_v3 ::
  "bool \<Rightarrow> string \<Rightarrow> string \<Rightarrow> keyword_reply \<Rightarrow> ai_reply \<Rightarrow> window_info \<Rightarrow> datetime \<Rightarrow>
   py_error + observation" where
  "observe_v3 use_ai g descr kw_reply reply w now =
     (let domain = extract_domain_v3 (win_title w) (win_process w)
      in case fst (calculate_relevance_score_v3 id remdups use_ai empty_analyzer
                     (win_title w) g descr domain kw_reply reply) of
           Inl e \<Rightarrow> Inl e
         | Inr res \<Rightarrow> Inr (w, now, domain, res))"

definition editor_window :: window_info where
  "editor_window = \<lparr> win_title = ''main.py'', win_process = ''code'', pid = None \<rparr>"

definition twitter_window :: window_info where
  "twitter_window = \<lparr> win_title = ''Home / Twitter'', win_process = ''chrome'', pid = None \<rparr>"

definition notes_window :: window_info where
  "notes_window = \<lparr> win_title = ''notes.txt'', win_process = ''gedit'', pid = None \<rparr>"

text \<open>
  Runs of v3.py without an API key, goal "Deep Learning", description "studying CNNs",
  on a fresh monitor: the session starts at 0 and the editor window is observed at 5 s;
  then either the session is ended at 20 s, or the Twitter window is observed at 12 s and
  the activity it opens is closed at 30 s, by \<open>end_session\<close> or by a third observation.
\<close>

definition observe_plain :: "window_info \<Rightarrow> datetime \<Rightarrow> py_error + observation" where
  "observe_plain w now =
     observe_v3 False ''Deep Learning'' ''studying CNNs'' Kw_request_failed Ai_request_failed
       w now"

definition first_obs_example :: "py_error + monitor" where
  "first_obs_example =
     then_do (start_session init_monitor ''Deep Learning'' ''studying CNNs'' 0 0 0)
       (\<lambda>m. then_do (observe_plain editor_window 5000000) (\<lambda>ob. observe_all m [ob]))"

definition end_example :: "py_error + monitor" where
  "end_example = then_do first_obs_example (\<lambda>m. end_session m 20000000 20000000)"

definition two_obs_example :: "py_error + monitor" where
  "two_obs_example =
     then_do (start_session init_monitor ''Deep Learning'' ''studying CNNs'' 0 0 0)
       (\<lambda>m. then_do (observe_plain editor_window 5000000)
          (\<lambda>ob1. then_do (observe_plain twitter_window 12000000)
             (\<lambda>ob2. observe_all m [ob1, ob2])))"

definition two_obs_ended :: "py_error + monitor" where
  "two_obs_ended = then_do two_obs_example (\<lambda>m. end_session m 30000000 30000000)"

definition two_obs_observed :: "py_error + monitor" where
  "two_obs_observed =
     then_do two_obs_example
       (\<lambda>m. then_do (observe_plain notes_window 30000000) (\<lambda>ob. observe_all m [ob]))"

text \<open>
  A run of v3.py with an API key and a keyword service that cannot be reached: the editor
  window is observed at 5 s and the scored backend answers with the score 5 and the label
  BANANA; the Twitter window is observed at 12 s.
\<close>

definition out_of_taxonomy_example :: "py_error + monitor" where
  "out_of_taxonomy_example =
     then_do (start_session init_monitor ''Deep Learning'' ''studying CNNs'' 0 0 0)
       (\<lambda>m. then_do (observe_v3 True ''Deep Learning'' ''studying CNNs'' Kw_request_failed
                        (Ai_object (Some 5) (Some ''BANANA'')) editor_window 5000000)
          (\<lambda>ob1. then_do (observe_v3 True ''Deep Learning'' ''studying CNNs''
                               Kw_request_failed Ai_request_failed twitter_window 12000000)
             (\<lambda>ob2. observe_all m [ob1, ob2])))"

text \<open>
  The keyword service answers \<open>[1, 2, 3]\<close>: the reply parses to an array of three integers.
\<close>

definition numbers_reply :: keyword_reply where
  "numbers_reply = Kw_array [Json_int 1, Json_int 2, Json_int 3]"

section \<open>Properties of the domain extractor\<close>

lemma lower_empty: "lower s = [] \<longleftrightarrow> s = []"
  by (simp add: lower_def)

lemma match_dash_com_nonempty: "match_dash_com ic s = Some g \<Longrightarrow> g \<noteq> []"
proof -
  assume m: "match_dash_com ic s = Some g"
  let ?rest = "drop 2 s"
  let ?n = "length (takeWhile (\<lambda>c. c \<noteq> CHR ''-'') ?rest)"
  let ?ks = "filter (\<lambda>k. lit_eq ic (take 4 (drop k ?rest)) ''.com'') (rev [1..<?n + 1])"
  from m obtain k ks where ks: "?ks = k # ks" and g: "g = take (k + 4) ?rest"
    by (auto simp: match_dash_com_def Let_def split: if_splits list.splits)
  from ks have "k \<in> set ?ks" by simp
  then have "lit_eq ic (take 4 (drop k ?rest)) ''.com''" by simp
  then have "take 4 (drop k ?rest) \<noteq> []"
    by (auto simp: lit_eq_def lower_def split: if_splits)
  then have "?rest \<noteq> []" by auto
  with g show "g \<noteq> []" by simp
qed

lemma match_dotted_nonempty: "match_dotted ic s = Some g \<Longrightarrow> g \<noteq> []"
proof -
  assume m: "match_dotted ic s = Some g"
  let ?n = "length (takeWhile (\<lambda>c. c \<noteq> CHR ''|'' \<and> \<not> is_space c) s)"
  let ?letters = "\<lambda>k. length (takeWhile (az ic) (drop (k + 1) s))"
  let ?ks = "filter (\<lambda>k. take 1 (drop k s) = ''.'' \<and> 2 \<le> ?letters k) (rev [1..<?n + 1])"
  from m obtain k ks where ks: "?ks = k # ks"
    and g: "g = take (k + 1 + min 4 (?letters k)) s"
    by (auto simp: match_dotted_def Let_def split: list.splits)
  from ks have "k \<in> set ?ks" by simp
  then have "take 1 (drop k s) = ''.''" by simp
  then have "s \<noteq> []" by auto
  with g show "g \<noteq> []" by simp
qed

lemma re_search_some: "re_search m s = Some g \<Longrightarrow> \<exists>t. m t = Some g"
  by (induction s) (auto split: option.splits)

lemma filter_head_mem: "filter P xs = x # rest \<Longrightarrow> x \<in> set xs"
  by (metis filter_is_subset subsetD list.set_intros(1))

lemma extract_domain_v3_nonempty:
  assumes "process_arg \<noteq> []"
  shows "extract_domain_v3 title_arg process_arg \<noteq> []"
proof -
  define pats where "pats = [''YouTube'', ''Wikipedia'', ''GitHub'', ''Stack Overflow'']"
  define hits where "hits = filter (\<lambda>pat. contains (lower pat) (lower title_arg)) pats"
  define r1 where "r1 = re_search (match_dash_com True) title_arg"
  define r2 where "r2 = re_search (match_dotted True) title_arg"
  define fallback where "fallback =
     (if contains ''youtube'' (lower title_arg) then ''youtube.com''
      else if contains ''wikipedia'' (lower title_arg) then ''wikipedia.org''
      else if contains ''stack overflow'' (lower title_arg) then ''stackoverflow.com''
      else if contains ''github'' (lower title_arg) then ''github.com''
      else lower process_arg)"
  have unfold: "extract_domain_v3 title_arg process_arg =
     (if contains ''code'' (lower process_arg) \<or> contains ''visual studio code'' (lower title_arg)
      then (if contains ''focusflow'' (lower title_arg) \<or> contains ''daip'' (lower title_arg)
            then ''focusflow'' else ''code'')
      else (case r1 of Some g \<Rightarrow> lower g
            | None \<Rightarrow> (case r2 of Some g \<Rightarrow> lower g
            | None \<Rightarrow> (case hits of pat # _ \<Rightarrow> lower pat | [] \<Rightarrow> fallback))))"
    by (simp only: extract_domain_v3_def Let_def r1_def r2_def hits_def pats_def fallback_def)
  have a: "lower g \<noteq> []" if "r1 = Some g" for g
    using that re_search_some [of "match_dash_com True" title_arg g] match_dash_com_nonempty
    by (auto simp: r1_def lower_empty)
  have b: "lower g \<noteq> []" if "r2 = Some g" for g
    using that re_search_some [of "match_dotted True" title_arg g] match_dotted_nonempty
    by (auto simp: r2_def lower_empty)
  have c: "lower pat \<noteq> []" if "hits = pat # rest" for pat rest
  proof -
    from that have "pat \<in> set pats"
      unfolding hits_def by (rule filter_head_mem)
    then have "pat \<noteq> []" by (auto simp: pats_def)
    then show ?thesis by (simp add: lower_empty)
  qed
  have d: "fallback \<noteq> []"
    using assms by (simp add: fallback_def lower_empty)
  show ?thesis
    unfolding unfold using a b c d
    by (cases r1; cases r2; cases hits) simp_all
qed

lemma extract_domain_v4_nonempty:
  assumes "process_arg \<noteq> []"
  shows "extract_domain_v4 title_arg process_arg \<noteq> []"
proof -
  define hits where
    "hits = filter (\<lambda>(name, domain). contains name (lower title_arg)) predefined_domains"
  define r1 where "r1 = re_search (match_dash_com False) (lower title_arg)"
  define r2 where "r2 = re_search (match_dotted False) (lower title_arg)"
  have unfold: "extract_domain_v4 title_arg process_arg =
     (if contains ''code'' (lower process_arg) \<or> contains ''visual studio code'' (lower title_arg)
      then ''code''
      else (case r1 of Some g \<Rightarrow> lower g
            | None \<Rightarrow> (case r2 of Some g \<Rightarrow> lower g
            | None \<Rightarrow> (case hits of (name, domain) # _ \<Rightarrow> domain
                                  | [] \<Rightarrow> lower process_arg))))"
    by (simp only: extract_domain_v4_def Let_def r1_def r2_def hits_def)
  have a: "lower g \<noteq> []" if "r1 = Some g" for g
    using that re_search_some [of "match_dash_com False" "lower title_arg" g]
      match_dash_com_nonempty
    by (auto simp: r1_def lower_empty)
  have b: "lower g \<noteq> []" if "r2 = Some g" for g
    using that re_search_some [of "match_dotted False" "lower title_arg" g]
      match_dotted_nonempty
    by (auto simp: r2_def lower_empty)
  have c: "domain \<noteq> []" if "hits = (name, domain) # rest" for name domain rest
  proof -
    from that have "(name, domain) \<in> set predefined_domains"
      unfolding hits_def by (rule filter_head_mem)
    then show ?thesis by (auto simp: predefined_domains_def)
  qed
  have d: "lower process_arg \<noteq> []"
    using assms by (simp add: lower_empty)
  show ?thesis
    unfolding unfold using a b c d
    by (cases r1; cases r2; cases hits) auto
qed

text \<open>
  C8 (amended). \<open>extract_domain\<close> is a function of the title and the process name alone; it
  has no error path, and both versions return a non-empty label whenever the process name
  is non-empty.
\<close>

theorem extract_domain_nonempty:
  "process_arg \<noteq> [] \<Longrightarrow>
   extract_domain_v3 title_arg process_arg \<noteq> [] \<and> extract_domain_v4 title_arg process_arg \<noteq> []"
  by (simp add: extract_domain_v3_nonempty extract_domain_v4_nonempty)

theorem extract_domain_nonempty_witness:
  "''Bash'' \<noteq> []
   \<and> extract_domain_v3 ''ResNet Tutorial - YouTube'' ''Bash'' = ''youtube''
   \<and> extract_domain_v4 ''ResNet Tutorial - YouTube'' ''Bash'' = ''youtube.com''
   \<and> extract_domain_v3 ''ResNet Tutorial - YouTube'' ''Bash'' \<noteq> []
   \<and> extract_domain_v4 ''ResNet Tutorial - YouTube'' ''Bash'' \<noteq> []"
proof -
  have v3: "extract_domain_v3 ''ResNet Tutorial - YouTube'' ''Bash'' = ''youtube''"
    by code_simp
  have v4: "extract_domain_v4 ''ResNet Tutorial - YouTube'' ''Bash'' = ''youtube.com''"
    by code_simp
  have "''Bash'' \<noteq> []" by simp
  from extract_domain_nonempty [OF this, of "''ResNet Tutorial - YouTube''"] v3 v4
  show ?thesis by simp
qed

text \<open>
  C8 as stated fails: with an empty title and an empty process name no rule applies and
  the label returned is the lower-cased process name, the empty string.
\<close>

theorem extract_domain_empty_process:
  "extract_domain_v3 [] [] = [] \<and> extract_domain_v4 [] [] = []"
  by code_simp

section \<open>Properties of the keyword deriver\<close>

lemma runs_acc_nonempty: "w \<in> set (runs_acc P cur s) \<Longrightarrow> w \<noteq> []"
  by (induction s arbitrary: cur) (auto split: if_splits)

lemma runs_acc_chars:
  "w \<in> set (runs_acc P cur s) \<Longrightarrow> c \<in> set w \<Longrightarrow> (c \<in> set cur \<or> (c \<in> set s \<and> P c))"
proof (induction s arbitrary: cur)
  case Nil
  then show ?case by (auto split: if_splits)
next
  case (Cons a s)
  show ?case
  proof (cases "P a")
    case True
    with Cons.prems have "w \<in> set (runs_acc P (cur @ [a]) s)" by simp
    from Cons.IH [OF this Cons.prems(2)] True show ?thesis by auto
  next
    case False
    show ?thesis
    proof (cases "cur = []")
      case True
      with False Cons.prems have "w \<in> set (runs_acc P [] s)" by simp
      from Cons.IH [OF this Cons.prems(2)] show ?thesis by auto
    next
      case nonempty: False
      with False Cons.prems have "w = cur \<or> w \<in> set (runs_acc P [] s)" by auto
      then show ?thesis
      proof
        assume "w = cur"
        with Cons.prems(2) show ?thesis by simp
      next
        assume "w \<in> set (runs_acc P [] s)"
        from Cons.IH [OF this Cons.prems(2)] show ?thesis by auto
      qed
    qed
  qed
qed

lemma lower_char_not_upper: "lower_char c \<notin> set ascii_uppercase"
  by (simp add: lower_char_def ascii_uppercase_def ascii_lowercase_def)

lemma findall_word_lower_tokens:
  assumes "w \<in> set (findall_word (lower g @ '' '' @ lower descr))"
  shows "w \<noteq> [] \<and> (\<forall>c \<in> set w. is_word_char c \<and> c \<notin> set ascii_uppercase)"
proof -
  from assms have w: "w \<in> set (runs_acc is_word_char [] (lower g @ '' '' @ lower descr))"
    by (simp add: findall_word_def)
  have "is_word_char c \<and> c \<notin> set ascii_uppercase" if "c \<in> set w" for c
  proof -
    from runs_acc_chars [OF w that]
    have c: "c \<in> set (lower g @ '' '' @ lower descr)" and "is_word_char c" by auto
    from c have "c \<in> lower_char ` set g \<or> c = CHR '' '' \<or> c \<in> lower_char ` set descr"
      by (auto simp: lower_def)
    then have "c \<notin> set ascii_uppercase"
      using lower_char_not_upper by (auto simp: ascii_uppercase_def)
    with \<open>is_word_char c\<close> show ?thesis by simp
  qed
  with runs_acc_nonempty [OF w] show ?thesis by blast
qed

lemma take_50_of_enumeration:
  assumes "distinct xs" and "set xs = set ws"
  shows "distinct (take 50 xs) \<and> length (take 50 xs) \<le> 50
       \<and> set (take 50 xs) \<subseteq> set ws
       \<and> (card (set ws) \<le> 50 \<longrightarrow> set (take 50 xs) = set ws)"
proof -
  have "length xs = card (set ws)"
    using assms distinct_card by fastforce
  then have "card (set ws) \<le> 50 \<longrightarrow> take 50 xs = xs"
    by simp
  moreover have "set (take 50 xs) \<subseteq> set ws"
    using assms(2) set_take_subset by fastforce
  ultimately show ?thesis
    using assms by auto
qed

lemma fallback_is_token_fallback:
  assumes "distinct xs"
    and "set xs = set (findall_word (lower g @ '' '' @ lower descr))"
  shows "is_token_fallback g descr (take 50 xs)"
proof -
  let ?ws = "findall_word (lower g @ '' '' @ lower descr)"
  let ?r = "take 50 xs"
  from take_50_of_enumeration [OF assms] have
    a: "distinct ?r" "length ?r \<le> 50" "set ?r \<subseteq> set ?ws"
       "card (set ?ws) \<le> 50 \<longrightarrow> set ?r = set ?ws"
    by simp_all
  have b: "\<forall>w \<in> set ?r. w \<noteq> [] \<and> (\<forall>c \<in> set w. is_word_char c \<and> c \<notin> set ascii_uppercase)"
    using a(3) findall_word_lower_tokens by blast
  from a b show ?thesis
    unfolding is_token_fallback_def Let_def by blast
qed

lemma strings_of_strings: "strings_of (map Json_string xs) = Some xs"
  by (induction xs) simp_all

text \<open>
  The failures the code does catch. On a cache miss, whenever the request raises, the
  content holds no array or \<open>json.loads\<close> raises, both versions of the keyword deriver
  return normally, leave the caches unchanged, and return the first 50 entries of the
  enumeration of the distinct word tokens of the lower-cased goal and description: a
  duplicate-free list of at most 50 tokens, all of them when there are at most 50, each a
  non-empty run of word characters (letters, digits, underscore) without upper-case
  letters.
\<close>

lemma keyword_fallback_on_caught_failure:
  assumes "keyword_cache an (keyword_cache_key hexdigest g descr) = None"
    and "\<forall>kws. reply \<noteq> Kw_array kws"
    and "distinct (list_of_set (findall_word (lower g @ '' '' @ lower descr)))"
    and "set (list_of_set (findall_word (lower g @ '' '' @ lower descr)))
           = set (findall_word (lower g @ '' '' @ lower descr))"
  shows "ai_generate_keywords hexdigest list_of_set an g descr reply
           = (map Json_string
                (take 50 (list_of_set (findall_word (lower g @ '' '' @ lower descr)))), an)
       \<and> llm_generate_keywords hexdigest list_of_set an g descr reply
           = (map Json_string
                (take 50 (list_of_set (findall_word (lower g @ '' '' @ lower descr)))), an)
       \<and> is_token_fallback g descr
           (take 50 (list_of_set (findall_word (lower g @ '' '' @ lower descr))))"
proof -
  let ?r = "map Json_string
              (take 50 (list_of_set (findall_word (lower g @ '' '' @ lower descr))))"
  have v3: "ai_generate_keywords hexdigest list_of_set an g descr reply = (?r, an)"
    using assms(1,2) by (cases reply) (simp_all add: ai_generate_keywords_def)
  have v4: "llm_generate_keywords hexdigest list_of_set an g descr reply = (?r, an)"
    using assms(1,2) by (cases reply) (simp_all add: llm_generate_keywords_def)
  from fallback_is_token_fallback [OF assms(3,4)] v3 v4 show ?thesis by simp
qed

lemma example_tokens:
  "findall_word (lower ''Deep Learning'' @ '' '' @ lower ''studying CNNs'')
     = [''deep'', ''learning'', ''studying'', ''cnns'']"
  "str_split (lower ''Deep Learning'') = [''deep'', ''learning'']"
  "str_split (lower ''studying CNNs'') = [''studying'', ''cnns'']"
  by code_simp+

text \<open>
  C9 on an array of non-strings. The content \<open>[1, 2, 3]\<close> is a malformed answer to a request
  for keywords, yet it matches \<open>\[.*\]\<close> and parses, so nothing is raised inside \<open>try\<close> and
  there is no fallback: both versions return and cache the three integers followed by the
  words of goal and description, where the token fallback (taken when no array is found)
  gives \<open>["deep", "learning", "studying", "cnns"]\<close>. The list is not a list of strings, and
  the classifier that called for it raises \<open>TypeError\<close> when it joins the keywords.
\<close>

theorem generate_keywords_keeps_non_strings:
  "fst (ai_generate_keywords id remdups empty_analyzer ''Deep Learning'' ''studying CNNs''
          numbers_reply)
     = [Json_int 1, Json_int 2, Json_int 3, Json_string ''deep'', Json_string ''learning'',
        Json_string ''studying'', Json_string ''cnns'']
   \<and> fst (llm_generate_keywords id remdups empty_analyzer ''Deep Learning'' ''studying CNNs''
            numbers_reply)
       = [Json_int 1, Json_int 2, Json_int 3, Json_string ''deep'', Json_string ''learning'',
          Json_string ''studying'', Json_string ''cnns'']
   \<and> keyword_cache
         (snd (ai_generate_keywords id remdups empty_analyzer ''Deep Learning''
                 ''studying CNNs'' numbers_reply))
         (keyword_cache_key id ''Deep Learning'' ''studying CNNs'')
       = Some [Json_int 1, Json_int 2, Json_int 3, Json_string ''deep'',
               Json_string ''learning'', Json_string ''studying'', Json_string ''cnns'']
   \<and> strings_of [Json_int 1, Json_int 2, Json_int 3, Json_string ''deep'',
                  Json_string ''learning'', Json_string ''studying'', Json_string ''cnns'']
       = None
   \<and> fst (ai_generate_keywords id remdups empty_analyzer ''Deep Learning'' ''studying CNNs''
            Kw_no_array)
       = [Json_string ''deep'', Json_string ''learning'', Json_string ''studying'',
          Json_string ''cnns'']
   \<and> fst (ai_classify id remdups empty_analyzer ''main.py'' ''Deep Learning''
            ''studying CNNs'' ''code'' numbers_reply Ai_request_failed)
       = Inl TypeError
   \<and> fst (llm_classify id remdups empty_analyzer ''main.py'' ''Deep Learning''
            ''studying CNNs'' ''code'' numbers_reply Llm_request_failed)
       = Inl TypeError"
proof -
  let ?got = "[Json_int 1, Json_int 2, Json_int 3, Json_string ''deep'',
               Json_string ''learning'', Json_string ''studying'', Json_string ''cnns'']"
  have v3: "ai_generate_keywords id remdups empty_analyzer ''Deep Learning'' ''studying CNNs''
              numbers_reply
            = (?got, empty_analyzer
                 \<lparr> keyword_cache :=
                     (keyword_cache empty_analyzer)
                       (keyword_cache_key id ''Deep Learning'' ''studying CNNs'' \<mapsto> ?got) \<rparr>)"
    unfolding ai_generate_keywords_def numbers_reply_def example_tokens
    by (simp add: empty_analyzer_def Let_def)
  have v4: "llm_generate_keywords id remdups empty_analyzer ''Deep Learning'' ''studying CNNs''
              numbers_reply
            = (?got, empty_analyzer
                 \<lparr> keyword_cache :=
                     (keyword_cache empty_analyzer)
                       (keyword_cache_key id ''Deep Learning'' ''studying CNNs'' \<mapsto> ?got) \<rparr>)"
    unfolding llm_generate_keywords_def numbers_reply_def example_tokens
    by (simp add: empty_analyzer_def Let_def)
  have none: "strings_of ?got = None"
    by simp
  have fb: "fst (ai_generate_keywords id remdups empty_analyzer ''Deep Learning''
                   ''studying CNNs'' Kw_no_array)
            = [Json_string ''deep'', Json_string ''learning'', Json_string ''studying'',
               Json_string ''cnns'']"
    unfolding ai_generate_keywords_def example_tokens
    by (simp add: empty_analyzer_def Let_def)
  have c3: "fst (ai_classify id remdups empty_analyzer ''main.py'' ''Deep Learning''
                   ''studying CNNs'' ''code'' numbers_reply Ai_request_failed)
            = Inl TypeError"
    unfolding ai_classify_def v3 by (simp add: empty_analyzer_def Let_def)
  have c4: "fst (llm_classify id remdups empty_analyzer ''main.py'' ''Deep Learning''
                   ''studying CNNs'' ''code'' numbers_reply Llm_request_failed)
            = Inl TypeError"
    unfolding llm_classify_def v4 by (simp add: empty_analyzer_def Let_def)
  from v3 v4 none fb c3 c4 show ?thesis by simp
qed

text \<open>
  C10. The cache key is the hash of \<open>goal + "_" + description\<close>, so the pairs
  \<open>("a_b", "c")\<close> and \<open>("a", "b_c")\<close> have the same key whatever the hash function is. After
  a call for the first pair has stored its keywords (or found them stored), a call for the
  second pair returns the very same list and leaves the caches as they are, whatever the
  service would reply: for instance \<open>["x", "a_b", "c"]\<close> where a fresh analyzer would have
  given \<open>["y", "a", "b_c"]\<close>.
\<close>

theorem keyword_cache_key_collision:
  "keyword_cache_key hexdigest ''a_b'' ''c'' = keyword_cache_key hexdigest ''a'' ''b_c''
   \<and> (let (r1, an1) = ai_generate_keywords hexdigest list_of_set an ''a_b'' ''c'' (Kw_array kws)
      in ai_generate_keywords hexdigest list_of_set an1 ''a'' ''b_c'' reply2 = (r1, an1))
   \<and> (let (r1, an1) = llm_generate_keywords hexdigest list_of_set an ''a_b'' ''c'' (Kw_array kws)
      in llm_generate_keywords hexdigest list_of_set an1 ''a'' ''b_c'' reply2 = (r1, an1))
   \<and> fst (ai_generate_keywords hexdigest list_of_set empty_analyzer ''a'' ''b_c''
            (Kw_array [Json_string ''y'']))
       = [Json_string ''y'', Json_string ''a'', Json_string ''b_c'']
   \<and> (let (r1, an1) = ai_generate_keywords hexdigest list_of_set empty_analyzer ''a_b'' ''c''
                         (Kw_array [Json_string ''x''])
      in r1 = [Json_string ''x'', Json_string ''a_b'', Json_string ''c'']
       \<and> fst (ai_generate_keywords hexdigest list_of_set an1 ''a'' ''b_c''
                (Kw_array [Json_string ''y''])) = r1)"
proof -
  have key: "keyword_cache_key hexdigest ''a_b'' ''c'' = keyword_cache_key hexdigest ''a'' ''b_c''"
    by (simp add: keyword_cache_key_def)
  have sp: "str_split (lower ''a_b'') = [''a_b'']" "str_split (lower ''c'') = [''c'']"
      "str_split (lower ''a'') = [''a'']" "str_split (lower ''b_c'') = [''b_c'']"
    by code_simp+
  have v3: "(let (r1, an1) = ai_generate_keywords hexdigest list_of_set an ''a_b'' ''c'' (Kw_array kws)
      in ai_generate_keywords hexdigest list_of_set an1 ''a'' ''b_c'' reply2 = (r1, an1))"
    unfolding ai_generate_keywords_def key
    by (cases "keyword_cache an (keyword_cache_key hexdigest ''a'' ''b_c'')") (simp_all add: Let_def)
  have v4: "(let (r1, an1) = llm_generate_keywords hexdigest list_of_set an ''a_b'' ''c'' (Kw_array kws)
      in llm_generate_keywords hexdigest list_of_set an1 ''a'' ''b_c'' reply2 = (r1, an1))"
    unfolding llm_generate_keywords_def key
    by (cases "keyword_cache an (keyword_cache_key hexdigest ''a'' ''b_c'')") (simp_all add: Let_def)
  have own: "fst (ai_generate_keywords hexdigest list_of_set empty_analyzer ''a'' ''b_c''
                    (Kw_array [Json_string ''y'']))
       = [Json_string ''y'', Json_string ''a'', Json_string ''b_c'']"
    by (simp add: ai_generate_keywords_def empty_analyzer_def sp Let_def)
  have other: "(let (r1, an1) = ai_generate_keywords hexdigest list_of_set empty_analyzer ''a_b'' ''c''
                         (Kw_array [Json_string ''x''])
      in r1 = [Json_string ''x'', Json_string ''a_b'', Json_string ''c'']
       \<and> fst (ai_generate_keywords hexdigest list_of_set an1 ''a'' ''b_c''
                (Kw_array [Json_string ''y''])) = r1)"
    unfolding ai_generate_keywords_def key
    by (simp add: empty_analyzer_def sp Let_def)
  from key v3 v4 own other show ?thesis by blast
qed

section \<open>Properties of the relevance classifier\<close>

lemma classification_bands_banded:
  "0 \<le> s \<Longrightarrow> s \<le> 1 \<Longrightarrow> banded (s, classification_bands s)"
  by (simp add: banded_def classification_bands_def)

lemma add_keyword_matches_lower_bound:
  "0 \<le> step \<Longrightarrow> score0 \<le> add_keyword_matches step score0 title_lower kws"
proof (induction kws arbitrary: score0)
  case Nil
  then show ?case by (simp add: add_keyword_matches_def)
next
  case (Cons k ks)
  let ?next = "if contains (lower k) title_lower then score0 + step else score0"
  have "add_keyword_matches step score0 title_lower (k # ks)
          = add_keyword_matches step ?next title_lower ks"
    by (simp add: add_keyword_matches_def)
  moreover have "?next \<le> add_keyword_matches step ?next title_lower ks"
    using Cons.IH [OF Cons.prems] .
  moreover have "score0 \<le> ?next"
    using Cons.prems by simp
  ultimately show ?case by linarith
qed

lemma educational_base_nonneg:
  "0 \<le> (case map_of educational_domains domain of Some v \<Rightarrow> v | None \<Rightarrow> (0.5::real))"
proof (cases "map_of educational_domains domain")
  case None
  then show ?thesis by simp
next
  case (Some v)
  then have "(domain, v) \<in> set educational_domains" by (rule map_of_SomeD)
  then have "0 \<le> v" by (auto simp: educational_domains_def)
  with Some show ?thesis by simp
qed

lemma distraction_value_nonneg:
  "map_of distraction_domains domain = Some v \<Longrightarrow> 0 \<le> v"
proof -
  assume "map_of distraction_domains domain = Some v"
  then have "(domain, v) \<in> set distraction_domains" by (rule map_of_SomeD)
  then show "0 \<le> v" by (auto simp: distraction_domains_def)
qed

lemma rule_based_classify_v3_banded:
  "banded (rule_based_classify_v3 title_arg g descr domain keywords)"
proof -
  define b0 where "b0 = (case map_of educational_domains domain of Some v \<Rightarrow> v | None \<Rightarrow> (0.5::real))"
  define b1 where "b1 = (if domain = ''focusflow''
        \<or> list_ex (\<lambda>term. contains term (lower title_arg)) project_terms
      then max b0 0.9 else b0)"
  define b where "b = (case map_of distraction_domains domain of
       Some v \<Rightarrow> min b1 v | None \<Rightarrow> b1)"
  define c0 where "c0 = add_keyword_matches 0.2 0.0 (lower title_arg) keywords"
  define c1 where "c1 = (if list_ex (\<lambda>word. contains word (lower title_arg)) (str_split (lower descr))
       then c0 + 0.3 else c0)"
  define c where "c = (if domain = ''youtube.com''
          \<and> list_ex (\<lambda>term. contains term (lower title_arg)) educational_terms
       then c1 + 0.4 else c1)"
  define f where "f = min ((b + c) / 2) 1.0"
  have r: "rule_based_classify_v3 title_arg g descr domain keywords = (f, classification_bands f)"
    by (simp only: rule_based_classify_v3_def Let_def b0_def b1_def b_def c0_def c1_def c_def
          f_def)
  have "0 \<le> b0" unfolding b0_def by (rule educational_base_nonneg)
  then have "0 \<le> b1" by (auto simp: b1_def max_def)
  then have "0 \<le> b"
    using distraction_value_nonneg [of domain]
    by (cases "map_of distraction_domains domain") (simp_all add: b_def)
  have "0 \<le> c0"
    unfolding c0_def using add_keyword_matches_lower_bound [of "0.2" "0.0"] by simp
  then have "0 \<le> c1" by (simp add: c1_def)
  then have "0 \<le> c" by (simp add: c_def)
  from \<open>0 \<le> b\<close> \<open>0 \<le> c\<close> have "0 \<le> f" "f \<le> 1" by (simp_all add: f_def)
  then show ?thesis
    unfolding r by (rule classification_bands_banded)
qed

lemma rule_based_classify_v4_banded:
  "banded (rule_based_classify_v4 title_arg g descr domain keywords)"
proof -
  define s0 where "s0 = add_keyword_matches 0.1 0.5 (lower title_arg) keywords"
  define s1 where "s1 = (if list_ex (\<lambda>term. contains term (lower title_arg)) project_terms
       then s0 + 0.3 else s0)"
  define s2 where "s2 = (if domain \<in> set distraction_domains_v4
       then max 0.05 (s1 - 0.4) else s1)"
  define f where "f = min s2 1.0"
  have r: "rule_based_classify_v4 title_arg g descr domain keywords = (f, classification_bands f)"
    by (simp only: rule_based_classify_v4_def Let_def s0_def s1_def s2_def f_def)
  have "0.5 \<le> s0"
    unfolding s0_def using add_keyword_matches_lower_bound [of "0.1" "0.5"] by simp
  then have "0.5 \<le> s1" by (simp add: s1_def)
  then have "0 \<le> s2" by (simp add: s2_def)
  then have "0 \<le> f" "f \<le> 1" by (simp_all add: f_def)
  then show ?thesis
    unfolding r by (rule classification_bands_banded)
qed

text \<open>
  C6. For every title, goal, description, domain and keyword list, both versions of the
  rule-based classifier return a score between 0 and 1 together with the label that the
  bands give to that score: DIRECT from 0.8, PERIPHERAL from 0.6 and below 0.8, INDIRECT
  from 0.3 and below 0.6, DISTRACTION below 0.3.
\<close>

theorem rule_based_classify_banded:
  "banded (rule_based_classify_v3 title_arg g descr domain keywords)
   \<and> banded (rule_based_classify_v4 title_arg g descr domain keywords)"
  using rule_based_classify_v3_banded rule_based_classify_v4_banded by simp

theorem rule_based_classify_banded_witness:
  "rule_based_classify_v4 ''focusflow - v3.py'' ''Deep Learning'' ''studying CNNs'' ''code''
       [''deep'', ''learning'', ''studying'', ''cnns''] = (4 / 5, ''DIRECT'')
   \<and> rule_based_classify_v4 ''Deep Learning book'' ''Deep Learning'' ''studying CNNs''
       ''amazon.com'' [''deep'', ''learning'', ''studying'', ''cnns''] = (7 / 10, ''PERIPHERAL'')
   \<and> rule_based_classify_v4 ''ResNet Tutorial - YouTube'' ''Deep Learning'' ''studying CNNs''
       ''youtube.com'' [''deep'', ''learning'', ''studying'', ''cnns''] = (1 / 2, ''INDIRECT'')
   \<and> rule_based_classify_v3 ''Home / Twitter'' ''Deep Learning'' ''studying CNNs''
       ''twitter.com'' [''deep'', ''learning'', ''studying'', ''cnns''] = (1 / 20, ''DISTRACTION'')"
proof -
  let ?kws = "[''deep'', ''learning'', ''studying'', ''cnns'']"
  let ?a = "rule_based_classify_v4 ''focusflow - v3.py'' ''Deep Learning'' ''studying CNNs''
              ''code'' ?kws"
  let ?b = "rule_based_classify_v4 ''Deep Learning book'' ''Deep Learning'' ''studying CNNs''
              ''amazon.com'' ?kws"
  let ?c = "rule_based_classify_v4 ''ResNet Tutorial - YouTube'' ''Deep Learning''
              ''studying CNNs'' ''youtube.com'' ?kws"
  let ?d = "rule_based_classify_v3 ''Home / Twitter'' ''Deep Learning'' ''studying CNNs''
              ''twitter.com'' ?kws"
  have sa: "fst ?a = 4 / 5" by code_simp
  have sb: "fst ?b = 7 / 10" by code_simp
  have sc: "fst ?c = 1 / 2" by code_simp
  have sd: "fst ?d = 1 / 20" by code_simp
  have "banded ?a" and "banded ?b" and "banded ?c"
    using rule_based_classify_banded by blast+
  moreover have "banded ?d"
    using rule_based_classify_banded by blast
  ultimately have "snd ?a = ''DIRECT''" "snd ?b = ''PERIPHERAL''" "snd ?c = ''INDIRECT''"
      "snd ?d = ''DISTRACTION''"
    using sa sb sc sd by (auto simp: banded_def split: prod.splits)
  with sa sb sc sd show ?thesis
    by (simp add: prod_eq_iff)
qed

lemma banded_in_taxonomy: "banded r \<Longrightarrow> in_taxonomy r"
proof -
  assume b: "banded r"
  obtain s c where r: "r = (s, c)" by (cases r)
  from b r have rng: "0 \<le> s" "s \<le> 1" by (simp_all add: banded_def)
  consider "s \<ge> 0.8" | "0.6 \<le> s \<and> s < 0.8" | "0.3 \<le> s \<and> s < 0.6" | "s < 0.3"
    by linarith
  then have "c \<in> set valid_classifications"
    using b r by cases (simp_all add: banded_def valid_classifications_def)
  with rng r show ?thesis by (simp add: in_taxonomy_def)
qed

lemma score_from_classification_bands:
  "cls \<in> set valid_classifications \<Longrightarrow>
   classification_bands (score_from_classification cls) = cls
   \<and> banded (score_from_classification cls, cls)"
  by (auto simp: valid_classifications_def score_from_classification_def
        classification_bands_def banded_def)

text \<open>
  The label-only backend of v4.py: whatever the service replies, a result that
  \<open>_llm_classify\<close> or \<open>calculate_relevance_score\<close> returns agrees with the bands and is
  therefore in the taxonomy, provided every cached result does, which they keep true. A
  result is returned whenever the keyword list holds strings only; otherwise joining the
  keywords raises \<open>TypeError\<close>.
\<close>

lemma llm_generate_keywords_classification_cache:
  "classification_cache (snd (llm_generate_keywords hexdigest list_of_set an g descr kw_reply))
     = classification_cache an"
  by (cases kw_reply)
     (simp_all add: llm_generate_keywords_def Let_def split: option.splits)

lemma llm_classify_label_path:
  assumes "classification_cache an (classification_cache_key hexdigest title_arg g descr domain)
             = None"
    and "upper (strip raw) \<in> set valid_classifications"
    and "strings_of (fst (llm_generate_keywords hexdigest list_of_set an g descr kw_reply))
           \<noteq> None"
  shows "fst (llm_classify hexdigest list_of_set an title_arg g descr domain kw_reply
                (Llm_response raw))
           = Inr (score_from_classification (upper (strip raw)), upper (strip raw))"
  using assms by (auto simp: llm_classify_def Let_def split: prod.splits option.splits)

lemma llm_classify_returns:
  assumes "strings_of (fst (llm_generate_keywords hexdigest list_of_set an g descr kw_reply))
             \<noteq> None"
  shows "\<exists>r. fst (llm_classify hexdigest list_of_set an title_arg g descr domain kw_reply reply)
               = Inr r"
  using assms
  by (cases reply)
     (auto simp: llm_classify_def Let_def split: prod.splits option.splits)

lemma llm_classify_raises:
  assumes "fst (llm_classify hexdigest list_of_set an title_arg g descr domain kw_reply reply)
             = Inl e"
  shows "e = TypeError
       \<and> strings_of (fst (llm_generate_keywords hexdigest list_of_set an g descr kw_reply))
           = None"
  using assms
  by (cases reply)
     (auto simp: llm_classify_def Let_def split: prod.splits option.splits if_splits)

lemma cache_banded_update:
  "cache_banded an \<Longrightarrow> classification_cache an1 = classification_cache an \<Longrightarrow> banded r \<Longrightarrow>
   cache_banded (an1\<lparr> classification_cache := (classification_cache an1)(k \<mapsto> r) \<rparr>)"
  unfolding cache_banded_def by auto

lemma llm_classify_banded:
  assumes "cache_banded an"
  shows "(\<forall>r. fst (llm_classify hexdigest list_of_set an title_arg g descr domain kw_reply reply)
               = Inr r \<longrightarrow> banded r)
       \<and> cache_banded (snd (llm_classify hexdigest list_of_set an title_arg g descr domain
                              kw_reply reply))"
proof (cases "classification_cache an (classification_cache_key hexdigest title_arg g descr domain)")
  case (Some cached)
  with assms have "banded cached" unfolding cache_banded_def by blast
  with Some assms show ?thesis by (simp add: llm_classify_def)
next
  case None
  obtain kws an1 where
    kw: "llm_generate_keywords hexdigest list_of_set an g descr kw_reply = (kws, an1)"
    by (cases "llm_generate_keywords hexdigest list_of_set an g descr kw_reply")
  have same: "classification_cache an1 = classification_cache an"
    using llm_generate_keywords_classification_cache
            [of hexdigest list_of_set an g descr kw_reply] kw
    by simp
  from assms same have an1: "cache_banded an1" unfolding cache_banded_def by simp
  show ?thesis
  proof (cases "strings_of kws")
    case no_strings: None
    with None kw an1 show ?thesis by (simp add: llm_classify_def)
  next
    case (Some strs)
    have rb: "banded (rule_based_classify_v4 title_arg g descr domain strs)"
      by (rule rule_based_classify_v4_banded)
    show ?thesis
    proof (cases reply)
      case Llm_request_failed
      with None kw Some rb an1 show ?thesis by (simp add: llm_classify_def)
    next
      case (Llm_response raw)
      show ?thesis
      proof (cases "upper (strip raw) \<in> set valid_classifications")
        case False
        with None kw Some rb an1 Llm_response show ?thesis
          by (simp add: llm_classify_def Let_def)
      next
        case True
        from score_from_classification_bands [OF True]
        have b: "banded (score_from_classification (upper (strip raw)), upper (strip raw))"
          by simp
        from cache_banded_update [OF assms same b]
        have "cache_banded
                (an1\<lparr> classification_cache :=
                        (classification_cache an1)
                          (classification_cache_key hexdigest title_arg g descr domain \<mapsto>
                             (score_from_classification (upper (strip raw)),
                              upper (strip raw))) \<rparr>)" .
        with None kw Some True Llm_response b show ?thesis
          by (simp add: llm_classify_def Let_def)
      qed
    qed
  qed
qed

lemma calculate_relevance_score_v4_in_taxonomy:
  assumes "cache_banded an"
  shows "(\<forall>r. fst (calculate_relevance_score_v4 hexdigest list_of_set is_ollama_up an
                      title_arg g descr domain kw_reply reply) = Inr r \<longrightarrow> in_taxonomy r)
       \<and> cache_banded (snd (calculate_relevance_score_v4 hexdigest list_of_set is_ollama_up an
                               title_arg g descr domain kw_reply reply))"
proof (cases is_ollama_up)
  case True
  with llm_classify_banded [OF assms] banded_in_taxonomy show ?thesis
    by (simp add: calculate_relevance_score_v4_def)
next
  case False
  with assms rule_based_classify_v4_banded banded_in_taxonomy show ?thesis
    by (simp add: calculate_relevance_score_v4_def Let_def)
qed

text \<open>
  C7. Each of the four labels is given back by the bands when they are applied to the
  label's fixed score. Hence on a cache miss a valid label from the backend is reported
  with a score that the bands map to that label, and, as long as every cached result agrees
  with the bands, so does every result that \<open>_llm_classify\<close> reports, and the cache stays
  that way. A result is reported whenever the keyword list holds strings only, which it
  does in particular whenever the keyword request fails on a cache miss.
\<close>

theorem label_scores_agree_with_bands:
  "(\<forall>cls \<in> set valid_classifications.
       classification_bands (score_from_classification cls) = cls)
   \<and> (classification_cache an (classification_cache_key hexdigest title_arg g descr domain) = None
        \<and> upper (strip raw) \<in> set valid_classifications
        \<and> strings_of (fst (llm_generate_keywords hexdigest list_of_set an g descr kw_reply))
            \<noteq> None \<longrightarrow>
      fst (llm_classify hexdigest list_of_set an title_arg g descr domain kw_reply
             (Llm_response raw))
        = Inr (score_from_classification (upper (strip raw)), upper (strip raw))
      \<and> banded (score_from_classification (upper (strip raw)), upper (strip raw)))
   \<and> (cache_banded an \<longrightarrow>
      (\<forall>r. fst (llm_classify hexdigest list_of_set an title_arg g descr domain kw_reply reply)
             = Inr r \<longrightarrow> banded r)
      \<and> cache_banded (snd (llm_classify hexdigest list_of_set an title_arg g descr domain
                             kw_reply reply)))
   \<and> (strings_of (fst (llm_generate_keywords hexdigest list_of_set an g descr kw_reply))
        \<noteq> None \<longrightarrow>
      (\<exists>r. fst (llm_classify hexdigest list_of_set an title_arg g descr domain kw_reply reply)
             = Inr r))
   \<and> (keyword_cache an (keyword_cache_key hexdigest g descr) = None
        \<and> (\<forall>kws. kw_reply \<noteq> Kw_array kws) \<longrightarrow>
      strings_of (fst (llm_generate_keywords hexdigest list_of_set an g descr kw_reply))
        \<noteq> None)"
proof -
  have a: "\<forall>cls \<in> set valid_classifications.
       classification_bands (score_from_classification cls) = cls"
    using score_from_classification_bands by blast
  have b: "classification_cache an (classification_cache_key hexdigest title_arg g descr domain)
             = None
        \<and> upper (strip raw) \<in> set valid_classifications
        \<and> strings_of (fst (llm_generate_keywords hexdigest list_of_set an g descr kw_reply))
            \<noteq> None \<longrightarrow>
      fst (llm_classify hexdigest list_of_set an title_arg g descr domain kw_reply
             (Llm_response raw))
        = Inr (score_from_classification (upper (strip raw)), upper (strip raw))
      \<and> banded (score_from_classification (upper (strip raw)), upper (strip raw))"
    using llm_classify_label_path score_from_classification_bands by blast
  have c: "cache_banded an \<longrightarrow>
      (\<forall>r. fst (llm_classify hexdigest list_of_set an title_arg g descr domain kw_reply reply)
             = Inr r \<longrightarrow> banded r)
      \<and> cache_banded (snd (llm_classify hexdigest list_of_set an title_arg g descr domain
                             kw_reply reply))"
    using llm_classify_banded by blast
  have d: "strings_of (fst (llm_generate_keywords hexdigest list_of_set an g descr kw_reply))
        \<noteq> None \<longrightarrow>
      (\<exists>r. fst (llm_classify hexdigest list_of_set an title_arg g descr domain kw_reply reply)
             = Inr r)"
    using llm_classify_returns by blast
  have e: "keyword_cache an (keyword_cache_key hexdigest g descr) = None
        \<and> (\<forall>kws. kw_reply \<noteq> Kw_array kws) \<longrightarrow>
      strings_of (fst (llm_generate_keywords hexdigest list_of_set an g descr kw_reply))
        \<noteq> None"
    by (cases kw_reply)
       (auto simp: llm_generate_keywords_def Let_def strings_of_strings)
  from a b c d e show ?thesis by blast
qed

theorem label_scores_agree_with_bands_witness:
  "''DIRECT'' \<in> set valid_classifications
   \<and> classification_bands (score_from_classification ''DIRECT'') = ''DIRECT''
   \<and> classification_cache empty_analyzer
        (classification_cache_key id ''ResNet Tutorial - YouTube'' ''Deep Learning''
           ''studying CNNs'' ''youtube.com'') = None
   \<and> keyword_cache empty_analyzer (keyword_cache_key id ''Deep Learning'' ''studying CNNs'')
       = None
   \<and> (\<forall>kws. Kw_request_failed \<noteq> Kw_array kws)
   \<and> upper (strip '' direct '') \<in> set valid_classifications
   \<and> cache_banded empty_analyzer
   \<and> fst (llm_classify id remdups empty_analyzer ''ResNet Tutorial - YouTube''
            ''Deep Learning'' ''studying CNNs'' ''youtube.com'' Kw_request_failed
            (Llm_response '' direct ''))
       = Inr (9 / 10, ''DIRECT'')
   \<and> banded (9 / 10, ''DIRECT'')"
proof -
  have v: "''DIRECT'' \<in> set valid_classifications"
    by (simp add: valid_classifications_def)
  have miss: "classification_cache empty_analyzer
        (classification_cache_key id ''ResNet Tutorial - YouTube'' ''Deep Learning''
           ''studying CNNs'' ''youtube.com'') = None"
    by (simp add: empty_analyzer_def)
  have kmiss: "keyword_cache empty_analyzer
        (keyword_cache_key id ''Deep Learning'' ''studying CNNs'') = None"
    by (simp add: empty_analyzer_def)
  have nk: "\<forall>kws. Kw_request_failed \<noteq> Kw_array kws" by simp
  have label: "upper (strip '' direct '') = ''DIRECT''"
    by code_simp
  have cb: "cache_banded empty_analyzer"
    unfolding cache_banded_def by (simp add: empty_analyzer_def)
  have sc: "score_from_classification ''DIRECT'' = 9 / 10"
    by (simp add: score_from_classification_def)
  note t = label_scores_agree_with_bands
             [where an = empty_analyzer and hexdigest = id and list_of_set = remdups
                and title_arg = "''ResNet Tutorial - YouTube''" and g = "''Deep Learning''"
                and descr = "''studying CNNs''" and domain = "''youtube.com''"
                and raw = "'' direct ''" and kw_reply = Kw_request_failed
                and reply = "Llm_response '' direct ''"]
  from t v have a: "classification_bands (score_from_classification ''DIRECT'') = ''DIRECT''"
    by blast
  from t kmiss nk have
    s: "strings_of (fst (llm_generate_keywords id remdups empty_analyzer ''Deep Learning''
                          ''studying CNNs'' Kw_request_failed)) \<noteq> None"
    by blast
  from t miss label v s have
    b: "fst (llm_classify id remdups empty_analyzer ''ResNet Tutorial - YouTube''
            ''Deep Learning'' ''studying CNNs'' ''youtube.com'' Kw_request_failed
            (Llm_response '' direct ''))
          = Inr (score_from_classification ''DIRECT'', ''DIRECT'')"
    by simp
  from t cb b have c: "banded (score_from_classification ''DIRECT'', ''DIRECT'')"
    by simp
  from v a miss kmiss nk label cb b c show ?thesis
    by (simp add: sc)
qed

section \<open>Properties of the session state machine\<close>

lemmas run_defs = then_do_def start_session_def init_monitor_def process_window_change_def
  end_session_def stats_add_def deque_append_def save_session_def save_activity_def
  int_total_seconds_def Let_def

text \<open>
  What the analyzer of v3.py makes of the three example windows without an API key, and
  of the editor window when the scored backend answers with the score 5 and the label
  BANANA.
\<close>

lemma observed_editor:
  "observe_plain editor_window now
     = Inr (editor_window, now, ''code'', (17 / 40, ''INDIRECT''))"
  by code_simp

lemma observed_twitter:
  "observe_plain twitter_window now
     = Inr (twitter_window, now, ''chrome'', (1 / 4, ''DISTRACTION''))"
  by code_simp

lemma observed_notes:
  "observe_plain notes_window now
     = Inr (notes_window, now, ''notes.txt'', (1 / 4, ''DISTRACTION''))"
  by code_simp

lemma observed_out_of_taxonomy:
  "observe_v3 True ''Deep Learning'' ''studying CNNs'' Kw_request_failed
     (Ai_object (Some 5) (Some ''BANANA'')) editor_window now
   = Inr (editor_window, now, ''code'', (5, ''BANANA''))"
  by code_simp

lemma observed_twitter_with_key:
  "observe_v3 True ''Deep Learning'' ''studying CNNs'' Kw_request_failed Ai_request_failed
     twitter_window now
   = Inr (twitter_window, now, ''chrome'', (1 / 4, ''DISTRACTION''))"
  by code_simp

lemmas observed = observed_editor observed_twitter observed_notes observed_out_of_taxonomy
  observed_twitter_with_key

lemmas windows = editor_window_def twitter_window_def notes_window_def

lemma stats_add_keys: "stats_add st k d = Inr st' \<Longrightarrow> map fst st' = map fst st"
  by (auto simp: stats_add_def split: if_splits)

lemma sum_bump:
  "distinct (map fst st) \<Longrightarrow> k \<in> set (map fst st) \<Longrightarrow>
   sum_list (map snd (map (\<lambda>(k', v). if k' = k then (k', v + d) else (k', v)) st))
     = sum_list (map snd st) + (d::int)"
proof (induction st)
  case Nil
  then show ?case by simp
next
  case (Cons p st)
  obtain k' v where p: "p = (k', v)" by (cases p)
  show ?case
  proof (cases "k' = k")
    case True
    with Cons.prems p have "k \<notin> set (map fst st)" by auto
    then have "map (\<lambda>(k', v). if k' = k then (k', v + d) else (k', v)) st = st"
      by (induction st) auto
    with True p show ?thesis by simp
  next
    case False
    with Cons p show ?thesis by auto
  qed
qed

lemma stats_add_sum:
  "distinct (map fst st) \<Longrightarrow> stats_add st k d = Inr st' \<Longrightarrow>
   sum_list (map snd st') = sum_list (map snd st) + d"
  using sum_bump [of st k d] by (auto simp: stats_add_def split: if_splits)











text \<open>
  The aggregator: \<open>start_session\<close> establishes \<open>balanced\<close> and \<open>process_window_change\<close>
  keeps it, since it adds the closed activity's duration to the statistics and appends the
  activity to the session's list in the same step.
\<close>

lemma start_session_balanced:
  assumes "distinct (map fst (session_stats m))"
    and "start_session m g descr tc te t0 = Inr m'"
  shows "balanced m'"
proof -
  from assms(2) obtain m1 where
    m1: "(if current_session m \<noteq> None then end_session m tc te else Inr m) = Inr m1" and
    m': "m' = m1\<lparr> current_session :=
                      Some \<lparr> goal = g, description = descr, start_time = t0,
                             end_time = None, activities = [] \<rparr>,
                    session_stats := map (\<lambda>(k, v). (k, 0)) (session_stats m1),
                    context_switches := 0, recent_activities := [] \<rparr>"
    by (auto simp: start_session_def split: sum.splits)
  have "map fst (session_stats m1) = map fst (session_stats m)"
    using m1 stats_add_keys
    by (fastforce simp: end_session_def Let_def
          split: if_splits option.splits sum.splits prod.splits)
  with assms(1) have "distinct (map fst (session_stats m1))" by simp
  with m' show ?thesis
    by (simp add: balanced_def stats_total_def closed_durations_def comp_def case_prod_beta)
qed

lemma process_window_change_balanced:
  assumes "balanced m" and "process_window_change m w now domain res = Inr m'"
  shows "balanced m'"
proof (cases "current_session m")
  case None
  with assms show ?thesis by (simp add: process_window_change_def)
next
  case (Some s)
  from assms(1) Some have d: "distinct (map fst (session_stats m))"
    and b: "stats_total m = closed_durations s"
    by (simp_all add: balanced_def)
  obtain score cls where res: "res = (score, cls)" by (cases res)
  show ?thesis
  proof (cases "current_activity m")
    case None
    with assms(2) Some d b res show ?thesis
      by (auto simp: process_window_change_def balanced_def stats_total_def
            closed_durations_def)
  next
    case a: (Some a)
    show ?thesis
    proof (cases "activity_start_time m")
      case None
      with assms(2) Some a d b res show ?thesis
        by (auto simp: process_window_change_def balanced_def stats_total_def
              closed_durations_def)
    next
      case st: (Some st)
      obtain stats' where
        st': "stats_add (session_stats m) (classification a) (now - st) = Inr stats'"
        using assms(2) Some a st
        by (cases "stats_add (session_stats m) (classification a) (now - st)")
           (simp_all add: process_window_change_def)
      have sum: "sum_list (map snd stats') = sum_list (map snd (session_stats m)) + (now - st)"
        using stats_add_sum [OF d st'] .
      have keys: "map fst stats' = map fst (session_stats m)"
        using stats_add_keys [OF st'] .
      from assms(2) Some a st st' res have
        "session_stats m' = stats'"
        "current_session m' =
           Some (s\<lparr> activities := activities s @ [a\<lparr> duration := Some (now - st) \<rparr>] \<rparr>)"
        by (auto simp: process_window_change_def Let_def)
      with sum keys d b show ?thesis
        by (simp add: balanced_def stats_total_def closed_durations_def
              activity_duration_def)
    qed
  qed
qed

text \<open>
  \<open>end_session\<close> in general: it writes the session's row and one row for each activity
  already in the session's list, and leaves the recent-activity window as it is; the
  activity it has just closed is in neither.
\<close>

lemma end_session_leaves_lists:
  assumes "current_session m = Some s"
    and "end_session m now_close now_end = Inr m'"
  shows "recent_activities m' = recent_activities m
       \<and> sessions (database m')
           = sessions (database m) @ [\<lparr> row_goal = goal s, row_description = description s,
                row_start_time = start_time s, row_end_time = Some now_end,
                row_total_duration = Some (int_total_seconds (now_end - start_time s)) \<rparr>]
       \<and> length (activity_rows (database m'))
           = length (activity_rows (database m)) + length (activities s)"
proof -
  have len: "length (activity_rows (fold (save_activity i) xs db))
               = length (activity_rows db) + length xs" for i xs db
    by (induction xs arbitrary: db) (simp_all add: save_activity_def Let_def)
  have ses: "sessions (fold (save_activity i) xs db) = sessions db" for i xs db
    by (induction xs arbitrary: db) (simp_all add: save_activity_def Let_def)
  from assms show ?thesis
    by (auto simp: end_session_def save_session_def Let_def len ses
             split: option.splits sum.splits prod.splits)
qed

text \<open>
  C1 at \<open>end_session\<close>. Session started at 0, the editor window observed at 5 s, session
  ended at 20 s: \<open>end_session\<close> adds the 15 s of the open activity to the
  statistics but does not append the activity to the session's list, so the session that
  is handed to the sink has no activity at all while the statistics total 15 s.
\<close>

theorem end_session_stats_exceed_recorded:
  "\<not> isl end_example
   \<and> stats_total (projr end_example) = 15000000
   \<and> map row_end_time (sessions (database (projr end_example))) = [Some 20000000]
   \<and> activity_rows (database (projr end_example)) = []"
  unfolding end_example_def first_obs_example_def observed
  by (simp add: windows run_defs stats_total_def)

text \<open>
  C2. Two observations (editor at 5 s, INDIRECT; Twitter at 12 s, DISTRACTION), then the
  open activity is closed at 30 s. Closed by \<open>end_session\<close>, its 18 s are added to the statistics, but the activity
  reaches neither the rows written to the sink nor the recent-activity window. Closed by
  \<open>process_window_change\<close> in the same state, it is appended to both lists.
\<close>

theorem end_session_skips_appends:
  "\<not> isl two_obs_ended
   \<and> map_of (session_stats (projr two_obs_ended)) ''DISTRACTION'' = Some 18000000
   \<and> map row_title (activity_rows (database (projr two_obs_ended))) = [''main.py'']
   \<and> map title (recent_activities (projr two_obs_ended)) = [''main.py'']
   \<and> \<not> isl two_obs_observed
   \<and> map_of (session_stats (projr two_obs_observed)) ''DISTRACTION'' = Some 18000000
   \<and> map title (activities (the (current_session (projr two_obs_observed))))
       = [''main.py'', ''Home / Twitter'']
   \<and> map title (recent_activities (projr two_obs_observed))
       = [''main.py'', ''Home / Twitter'']"
  unfolding two_obs_ended_def two_obs_observed_def two_obs_example_def observed
  by (simp add: windows run_defs)

section \<open>The focus score\<close>

text \<open>
  The accumulated times stay non-negative as long as the clock does not run backwards past
  the start of the open activity.
\<close>

lemma stats_add_nonneg:
  assumes "list_all (\<lambda>(k, v). 0 \<le> v) st" and "0 \<le> d" and "stats_add st k d = Inr st'"
  shows "list_all (\<lambda>(k, v). 0 \<le> v) st'"
proof -
  from assms(3) have "st' = map (\<lambda>(k', v). if k' = k then (k', v + d) else (k', v)) st"
    by (auto simp: stats_add_def split: if_splits)
  with assms(1,2) show ?thesis
    by (fastforce simp: list_all_iff split: if_splits)
qed

lemma process_window_change_stats_nonneg:
  assumes "stats_nonneg m" and "clock_ahead m now"
    and "process_window_change m w now domain res = Inr m'"
  shows "stats_nonneg m'"
proof (cases "current_session m")
  case None
  with assms show ?thesis by (simp add: process_window_change_def)
next
  case (Some s)
  obtain score cls where res: "res = (score, cls)" by (cases res)
  show ?thesis
  proof (cases "current_activity m")
    case None
    with assms Some res show ?thesis
      by (auto simp: process_window_change_def stats_nonneg_def)
  next
    case a: (Some a)
    show ?thesis
    proof (cases "activity_start_time m")
      case None
      with assms Some a res show ?thesis
        by (auto simp: process_window_change_def stats_nonneg_def)
    next
      case st: (Some st)
      from assms(2) st have d: "0 \<le> now - st" by (simp add: clock_ahead_def)
      obtain stats' where
        st': "stats_add (session_stats m) (classification a) (now - st) = Inr stats'"
        using assms(3) Some a st
        by (cases "stats_add (session_stats m) (classification a) (now - st)")
           (simp_all add: process_window_change_def)
      from assms(3) Some a st st' res have "session_stats m' = stats'"
        by (auto simp: process_window_change_def Let_def)
      with stats_add_nonneg [OF _ d st'] assms(1) show ?thesis
        by (simp add: stats_nonneg_def)
    qed
  qed
qed

lemma end_session_stats_nonneg:
  assumes "stats_nonneg m" and "clock_ahead m now_close"
    and "end_session m now_close now_end = Inr m'"
  shows "stats_nonneg m'"
proof (cases "current_session m")
  case None
  with assms show ?thesis by (simp add: end_session_def)
next
  case (Some s)
  show ?thesis
  proof (cases "current_activity m")
    case None
    with assms Some show ?thesis
      by (auto simp: end_session_def stats_nonneg_def Let_def split: prod.splits)
  next
    case a: (Some a)
    show ?thesis
    proof (cases "activity_start_time m")
      case None
      with assms Some a show ?thesis
        by (auto simp: end_session_def stats_nonneg_def Let_def split: prod.splits)
    next
      case st: (Some st)
      from assms(2) st have d: "0 \<le> now_close - st" by (simp add: clock_ahead_def)
      obtain stats' where
        st': "stats_add (session_stats m) (classification a) (now_close - st) = Inr stats'"
        using assms(3) Some a st
        by (cases "stats_add (session_stats m) (classification a) (now_close - st)")
           (simp_all add: end_session_def)
      from assms(3) Some a st st' have "session_stats m' = stats'"
        by (auto simp: end_session_def Let_def split: prod.splits)
      with stats_add_nonneg [OF _ d st'] assms(1) show ?thesis
        by (simp add: stats_nonneg_def)
    qed
  qed
qed

lemma stats_nonneg_lookup:
  "stats_nonneg m \<Longrightarrow> map_of (session_stats m) k = Some v \<Longrightarrow> 0 \<le> v"
  by (auto simp: stats_nonneg_def list_all_iff dest: map_of_SomeD)





section \<open>The scored backend of v3.py\<close>

text \<open>
  C3 on v3.py. With an API key, the editor window has the ambiguous domain \<open>code\<close>, so the
  scored backend is asked; a reply that parses to an object with \<open>relevance_score\<close> 5 and
  \<open>classification\<close> BANANA is returned as it is: the score is outside \<open>[0,1]\<close> and the label
  outside the taxonomy; there is no fallback. The next observation of that session then
  raises \<open>KeyError\<close> when the activity is closed, since the statistics have no such key.
\<close>

theorem ai_classify_out_of_taxonomy:
  "extract_domain_v3 ''main.py'' ''code'' = ''code''
   \<and> ''code'' \<in> set ambiguous_domains
   \<and> fst (calculate_relevance_score_v3 id remdups True empty_analyzer
          ''main.py'' ''Deep Learning'' ''studying CNNs'' ''code''
          Kw_request_failed (Ai_object (Some 5) (Some ''BANANA'')))
     = Inr (5, ''BANANA'')
   \<and> \<not> in_taxonomy (5, ''BANANA'')
   \<and> out_of_taxonomy_example = Inl KeyError"
proof -
  have d: "extract_domain_v3 ''main.py'' ''code'' = ''code''"
    by code_simp
  have a: "''code'' \<in> set ambiguous_domains"
    by (simp add: ambiguous_domains_def)
  have r: "fst (calculate_relevance_score_v3 id remdups True empty_analyzer
          ''main.py'' ''Deep Learning'' ''studying CNNs'' ''code''
          Kw_request_failed (Ai_object (Some 5) (Some ''BANANA'')))
     = Inr (5, ''BANANA'')"
    by (simp add: calculate_relevance_score_v3_def ambiguous_domains_def ai_classify_def
          ai_generate_keywords_def strings_of_strings empty_analyzer_def Let_def
          split: prod.splits)
  have t: "\<not> in_taxonomy (5, ''BANANA'')"
    by (simp add: in_taxonomy_def)
  have k: "out_of_taxonomy_example = Inl KeyError"
    unfolding out_of_taxonomy_example_def observed by (simp add: windows run_defs)
  from d a r t k show ?thesis by blast
qed

end
